theory Spec2Isabelle
  imports Complex_Main
begin

section \<open>JavaScript values and errors\<close>

text \<open>
  The values that cross the untyped boundaries of the program (the body of an HTTP request,
  the reply of the language model after \<^verbatim>\<open>JSON.parse\<close>) are JSON values. The value
  \<^verbatim>\<open>undefined\<close> is \<open>None\<close> of \<open>json option\<close>. A number is the real that the double denotes:
  the comparisons of the program (\<open>< 0\<close>, \<open>> 1\<close>, \<open>\<le> 0\<close>, \<open>> threshold\<close>) read the same on
  doubles and on the reals they denote. The one place where numbers are added, the
  aggregate of the database, adds as doubles are added (see \<open>double_add\<close> below). A string
  is the UTF-8 encoding of the JavaScript string: equality, emptiness and concatenation
  read the same on the encoding, and \<open>trim\<close> below strips the encodings of the white space
  code points.
\<close>

datatype json =
    JNull
  | JBool bool
  | JNum real
  | JStr string
  | JArr "json list"
  | JObj "(string \<times> json) list"

text \<open>What a \<^verbatim>\<open>throw\<close> or a rejected promise carries.\<close>

datatype js_error =
    Error string
  | TypeError string
  | SyntaxError string
  | PrismaClientValidationError string
  | PrismaClientKnownRequestError string

text \<open>\<^verbatim>\<open>error.message\<close>; for a Prisma known request error the payload is its code.\<close>

fun error_message :: "js_error \<Rightarrow> string" where
  "error_message (Error m) = m"
| "error_message (TypeError m) = m"
| "error_message (SyntaxError m) = m"
| "error_message (PrismaClientValidationError m) = m"
| "error_message (PrismaClientKnownRequestError m) = m"

text \<open>Truthiness, as \<^verbatim>\<open>!x\<close> and \<^verbatim>\<open>if (x)\<close> read it (JSON has no NaN).\<close>

fun truthy :: "json option \<Rightarrow> bool" where
  "truthy None = False"
| "truthy (Some JNull) = False"
| "truthy (Some (JBool b)) = b"
| "truthy (Some (JNum x)) = (x \<noteq> 0)"
| "truthy (Some (JStr s)) = (s \<noteq> [])"
| "truthy (Some (JArr xs)) = True"
| "truthy (Some (JObj kvs)) = True"

text \<open>
  Reading a property \<^verbatim>\<open>v.k\<close> of a parsed JSON value, for the property names the program
  reads (none of them is on a prototype): a \<^verbatim>\<open>TypeError\<close> on \<^verbatim>\<open>null\<close>, the own property
  of an object, \<^verbatim>\<open>undefined\<close> on everything else. An object is the list of its own
  properties, each key once, as \<^verbatim>\<open>JSON.parse\<close> leaves it.
\<close>

fun getProp :: "json \<Rightarrow> string \<Rightarrow> js_error + json option" where
  "getProp JNull k = Inl (TypeError ''Cannot read properties of null'')"
| "getProp (JObj kvs) k = Inr (map_of kvs k)"
| "getProp v k = Inr None"

text \<open>\<^verbatim>\<open>Array.prototype.includes\<close> on an array of strings: only an equal string is found.\<close>

fun array_includes :: "string list \<Rightarrow> json option \<Rightarrow> bool" where
  "array_includes xs (Some (JStr s)) = (s \<in> set xs)"
| "array_includes xs v = False"

text \<open>
  \<^verbatim>\<open>String.prototype.trim\<close> strips the code points of \<^verbatim>\<open>WhiteSpace\<close> and \<^verbatim>\<open>LineTerminator\<close> from
  both ends. These are their UTF-8 encodings: U+0009 to U+000D, U+0020, U+00A0, U+1680,
  U+2000 to U+200A, U+2028, U+2029, U+202F, U+205F, U+3000 and U+FEFF.
\<close>

definition whiteSpace :: "string list" where
  "whiteSpace =
     [[CHR 0x09], [CHR 0x0A], [CHR 0x0B], [CHR 0x0C], [CHR 0x0D], [CHR 0x20],
      [CHR 0xC2, CHR 0xA0],
      [CHR 0xE1, CHR 0x9A, CHR 0x80],
      [CHR 0xE2, CHR 0x80, CHR 0x80], [CHR 0xE2, CHR 0x80, CHR 0x81],
      [CHR 0xE2, CHR 0x80, CHR 0x82], [CHR 0xE2, CHR 0x80, CHR 0x83],
      [CHR 0xE2, CHR 0x80, CHR 0x84], [CHR 0xE2, CHR 0x80, CHR 0x85],
      [CHR 0xE2, CHR 0x80, CHR 0x86], [CHR 0xE2, CHR 0x80, CHR 0x87],
      [CHR 0xE2, CHR 0x80, CHR 0x88], [CHR 0xE2, CHR 0x80, CHR 0x89],
      [CHR 0xE2, CHR 0x80, CHR 0x8A],
      [CHR 0xE2, CHR 0x80, CHR 0xA8], [CHR 0xE2, CHR 0x80, CHR 0xA9],
      [CHR 0xE2, CHR 0x80, CHR 0xAF],
      [CHR 0xE2, CHR 0x81, CHR 0x9F],
      [CHR 0xE3, CHR 0x80, CHR 0x80],
      [CHR 0xEF, CHR 0xBB, CHR 0xBF]]"

text \<open>Stripping, from the front of a string, every leading occurrence of one of the codes.\<close>

function strip :: "string list \<Rightarrow> string \<Rightarrow> string" where
  "strip codes s =
     (case find (\<lambda>p. p \<noteq> [] \<and> take (length p) s = p) codes of
        None \<Rightarrow> s
      | Some p \<Rightarrow> strip codes (drop (length p) s))"
  by pat_completeness auto
termination
proof (relation "measure (\<lambda>(codes, s). length s)")
  show "wf (measure (\<lambda>(codes, s). length s))"
    by simp
next
  fix codes :: "string list" and s p :: string
  assume "find (\<lambda>p. p \<noteq> [] \<and> take (length p) s = p) codes = Some p"
  then have p: "p \<noteq> []" and t: "take (length p) s = p"
    by (auto simp: find_Some_iff)
  from t have "length (take (length p) s) = length p"
    by simp
  then have "length p \<le> length s"
    by simp
  with p show "((codes, drop (length p) s), (codes, s)) \<in> measure (\<lambda>(codes, s). length s)"
    by (cases p) simp_all
qed

declare strip.simps [simp del]

definition trim :: "string \<Rightarrow> string" where
  "trim s = rev (strip (map rev whiteSpace) (rev (strip whiteSpace s)))"

section \<open>Double precision addition\<close>

text \<open>
  Rounding a real to the nearest double, ties to even: the real is scaled by the unit in
  the last of the 53 places of its binade, rounded to an integer, and scaled back. The
  exponent is not bounded, so the model is that of doubles below the overflow threshold;
  on sums of doubles the lower bound of the exponent plays no part, because such a sum
  in the subnormal range is exact.
\<close>

definition round_half_even :: "real \<Rightarrow> int" where
  "round_half_even q =
     (if q - of_int \<lfloor>q\<rfloor> < 1 / 2 then \<lfloor>q\<rfloor>
      else if 1 / 2 < q - of_int \<lfloor>q\<rfloor> then \<lfloor>q\<rfloor> + 1
      else if even \<lfloor>q\<rfloor> then \<lfloor>q\<rfloor> else \<lfloor>q\<rfloor> + 1)"

definition exponent :: "real \<Rightarrow> int" where
  "exponent x = \<lfloor>log 2 \<bar>x\<bar>\<rfloor>"

definition ulp :: "real \<Rightarrow> real" where
  "ulp x = 2 powr of_int (exponent x - 52)"

definition to_double :: "real \<Rightarrow> real" where
  "to_double x = (if x = 0 then 0 else of_int (round_half_even (x / ulp x)) * ulp x)"

text \<open>The sum of two doubles, as JavaScript's \<^verbatim>\<open>+\<close> and the database's float addition give it.\<close>

definition double_add :: "real \<Rightarrow> real \<Rightarrow> real" where
  "double_add a b = to_double (a + b)"

text \<open>
  The sum of a column of doubles, as \<^verbatim>\<open>SUM\<close> over a double precision column takes it: the
  values are added one after the other, each addition rounding.
\<close>

definition float8_sum :: "real list \<Rightarrow> real" where
  "float8_sum xs = foldl double_add 0 xs"

text \<open>A real that is a double: zero, or a whole number of units in the last place.\<close>

definition is_double :: "real \<Rightarrow> bool" where
  "is_double d = (d = 0 \<or> (\<exists>n::int. d = of_int n * ulp d))"

section \<open>The data model (src/types/index.ts)\<close>

record ClassificationResult =
  cr_category :: string
  cr_confidence :: real

text \<open>
  \<^verbatim>\<open>TransactionInput\<close>. The route handler passes \<^verbatim>\<open>userId\<close> and \<^verbatim>\<open>description\<close> on as they
  came out of the request body, checked for truthiness only, so at run time they are any
  JSON value (never \<^verbatim>\<open>undefined\<close>); \<^verbatim>\<open>amount\<close> has been checked to be a number.
\<close>

record TransactionInput =
  ti_userId :: json
  ti_description :: json
  ti_amount :: real

text \<open>\<^verbatim>\<open>TransactionInput & { category: string; confidence: number }\<close>, the store's argument.\<close>

record TransactionCreate = TransactionInput +
  tc_category :: string
  tc_confidence :: real

record TransactionOutput =
  tx_id :: string
  tx_userId :: string
  tx_description :: string
  tx_amount :: real
  tx_category :: string
  tx_confidence :: real
  tx_createdAt :: nat
  tx_updatedAt :: nat

record AlertRuleInput =
  ai_userId :: string
  ai_category :: string
  ai_threshold :: real

record AlertRuleOutput =
  ar_id :: string
  ar_userId :: string
  ar_category :: string
  ar_threshold :: real
  ar_isActive :: bool
  ar_createdAt :: nat
  ar_updatedAt :: nat

record AlertEvent =
  ev_userId :: string
  ev_category :: string
  ev_threshold :: real
  ev_totalSpent :: real
  ev_message :: string
  ev_triggeredAt :: nat

text \<open>\<^verbatim>\<open>AlertQueueJob\<close> (queue.service.ts) and the options \<^verbatim>\<open>createTransaction\<close> adds it with.\<close>

record AlertQueueJob =
  job_userId :: json
  job_transactionId :: string
  job_category :: string
  job_amount :: real

record JobOptions =
  attempts :: nat
  backoff_type :: string
  backoff_delay :: nat

record User =
  user_id :: string
  user_email :: string

section \<open>The collaborators\<close>

text \<open>
  What becomes of the promise \<^verbatim>\<open>alertQueue.add\<close> returns: it resolves with the job stored, it
  rejects with an error, or it stays pending. The queue's connection is made with
  \<^verbatim>\<open>maxRetriesPerRequest: null\<close>, so while Redis cannot be reached the command is kept and the
  promise stays pending.
\<close>

datatype add_outcome = AddResolves | AddRejects js_error | AddPending

text \<open>
  The three external systems and what the program can observe of them. The state is the
  database, the jobs the queue holds, and the requests the language model has received.
  The environment fixes how the outside answers: the model's reply to a description
  (\<open>Inl\<close>: the call rejects; \<open>Inr None\<close>: no content in the first choice), \<^verbatim>\<open>JSON.parse\<close>,
  what becomes of \<^verbatim>\<open>alertQueue.add\<close>, the id and the time the database gives a new
  row, \<^verbatim>\<open>toFixed(2)\<close>, and the string a template literal makes of a value that is not
  a string.
\<close>

record database =
  users :: "User list"
  transactions :: "TransactionOutput list"
  alertRules :: "AlertRuleOutput list"

record world =
  db :: database
  jobs :: "(string \<times> AlertQueueJob \<times> JobOptions) list"
  openai_requests :: "string list"

record env =
  openai_reply :: "string \<Rightarrow> js_error + string option"
  JSON_parse :: "string \<Rightarrow> js_error + json"
  queue_add :: add_outcome
  cuid :: string
  now :: nat
  toFixed2 :: "real \<Rightarrow> string"
  toString_other :: "json \<Rightarrow> string"

section \<open>AIService (src/services/ai.service.ts)\<close>

definition ALLOWED_CATEGORIES :: "string list" where
  "ALLOWED_CATEGORIES = [''Food'', ''Transport'', ''Utilities'', ''Entertainment'', ''Shopping'']"

text \<open>The literal both fallback branches return.\<close>

definition default_classification :: ClassificationResult where
  "default_classification = \<lparr>cr_category = ''Shopping'', cr_confidence = 0.5\<rparr>"

text \<open>\<^verbatim>\<open>openai.chat.completions.create\<close>, then \<^verbatim>\<open>response.choices[0]?.message?.content\<close>.\<close>

definition openai_create :: "env \<Rightarrow> world \<Rightarrow> string \<Rightarrow> (js_error + string option) \<times> world" where
  "openai_create e w description =
     (openai_reply e description, w\<lparr>openai_requests := openai_requests w @ [description]\<rparr>)"

text \<open>
  The test on the parsed reply: \<^verbatim>\<open>!result.category || !ALLOWED_CATEGORIES.includes(result.category)
  || typeof result.confidence !== "number" || result.confidence < 0 || result.confidence > 1\<close>.
\<close>

definition invalid_structure :: "json option \<Rightarrow> json option \<Rightarrow> bool" where
  "invalid_structure cat conf =
     (if \<not> truthy cat then True
      else if \<not> array_includes ALLOWED_CATEGORIES cat then True
      else (case conf of Some (JNum x) \<Rightarrow> x < 0 \<or> x > 1 | _ \<Rightarrow> True))"

text \<open>\<^verbatim>\<open>return result as ClassificationResult\<close>: the two fields the callers read.\<close>

fun as_ClassificationResult :: "json option \<Rightarrow> json option \<Rightarrow> ClassificationResult" where
  "as_ClassificationResult (Some (JStr c)) (Some (JNum x)) = \<lparr>cr_category = c, cr_confidence = x\<rparr>"
| "as_ClassificationResult cat conf = default_classification"

text \<open>The body of the \<^verbatim>\<open>try\<close> block of \<^verbatim>\<open>classifyTransaction\<close>.\<close>

definition classifyTransaction_try ::
  "env \<Rightarrow> world \<Rightarrow> json option \<Rightarrow> (js_error + ClassificationResult) \<times> world" where
  "classifyTransaction_try e w description =
     (if \<not> truthy description then (Inl (Error ''Description cannot be empty''), w)
      else case description of
        Some (JStr d) \<Rightarrow>
          if length (trim d) = 0 then (Inl (Error ''Description cannot be empty''), w)
          else (case openai_create e w d of
              (Inl err, w') \<Rightarrow> (Inl err, w')
            | (Inr content, w') \<Rightarrow>
                (case content of
                   None \<Rightarrow> (Inl (Error ''No response from OpenAI API''), w')
                 | Some c \<Rightarrow>
                     if c = [] then (Inl (Error ''No response from OpenAI API''), w')
                     else (case JSON_parse e c of
                         Inl err \<Rightarrow> (Inl err, w')
                       | Inr result \<Rightarrow>
                           (case getProp result ''category'' of
                              Inl err \<Rightarrow> (Inl err, w')
                            | Inr cat \<Rightarrow>
                                (case getProp result ''confidence'' of
                                   Inl err \<Rightarrow> (Inl err, w')
                                 | Inr conf \<Rightarrow>
                                     if invalid_structure cat conf
                                     then (Inr default_classification, w')
                                     else (Inr (as_ClassificationResult cat conf), w'))))))
      | _ \<Rightarrow> (Inl (TypeError ''description.trim is not a function''), w))"

text \<open>\<^verbatim>\<open>classifyTransaction\<close>: the \<^verbatim>\<open>catch\<close> turns every error of the body into the default.\<close>

definition classifyTransaction ::
  "env \<Rightarrow> world \<Rightarrow> json option \<Rightarrow> (js_error + ClassificationResult) \<times> world" where
  "classifyTransaction e w description =
     (case classifyTransaction_try e w description of
        (Inl err, w') \<Rightarrow> (Inr default_classification, w')
      | (Inr r, w') \<Rightarrow> (Inr r, w'))"

definition isValidCategory :: "string \<Rightarrow> bool" where
  "isValidCategory category = (category \<in> set ALLOWED_CATEGORIES)"

definition getAllowedCategories :: "string list" where
  "getAllowedCategories = ALLOWED_CATEGORIES"

section \<open>The database\<close>

text \<open>
  Modelled from the spec: the Prisma schema (prisma/schema.prisma) and the client generated
  from it are not among the sources. The tables follow the spec's data model: a User has a
  unique id; a Transaction and an AlertRule belong to a User (a foreign key on the user id);
  at most one AlertRule exists per (userId, category) pair, a uniqueness constraint of the
  store; a new AlertRule is active. A row's id and timestamps are the database's defaults,
  read from the environment, and a generated id is taken to be fresh. The database is
  always reachable: its operations fail on their arguments and constraints only. The error
  codes are Prisma's: P2002 unique constraint, P2003 foreign key, P2025 record not found.
\<close>

text \<open>
  Modelled from the spec: the User table of the missing schema, keyed by its unique id.
  \<^verbatim>\<open>findUniqueOrThrow\<close> returns the user with the id or throws P2025; an id that is not a
  string does not pass the client's validation of its arguments.
\<close>

definition prisma_user_findUniqueOrThrow :: "database \<Rightarrow> json \<Rightarrow> (js_error + User) \<times> database" where
  "prisma_user_findUniqueOrThrow d uid =
     (case uid of
        JStr u \<Rightarrow>
          (case find (\<lambda>x. user_id x = u) (users d) of
             None \<Rightarrow> (Inl (PrismaClientKnownRequestError ''P2025''), d)
           | Some x \<Rightarrow> (Inr x, d))
      | _ \<Rightarrow> (Inl (PrismaClientValidationError ''Invalid value for argument id''), d))"

text \<open>
  Modelled from the spec: inserting a User of the missing schema; a second user with the
  same id is refused (P2002).
\<close>

definition prisma_user_create :: "database \<Rightarrow> json \<Rightarrow> string \<Rightarrow> (js_error + User) \<times> database" where
  "prisma_user_create d uid email =
     (case uid of
        JStr u \<Rightarrow>
          if find (\<lambda>x. user_id x = u) (users d) \<noteq> None
          then (Inl (PrismaClientKnownRequestError ''P2002''), d)
          else (Inr \<lparr>user_id = u, user_email = email\<rparr>,
                d\<lparr>users := users d @ [\<lparr>user_id = u, user_email = email\<rparr>]\<rparr>)
      | _ \<Rightarrow> (Inl (PrismaClientValidationError ''Invalid value for argument id''), d))"

text \<open>
  Modelled from the spec: inserting a Transaction of the missing schema. The owning user
  must exist (P2003 otherwise); the new row is returned.
\<close>

definition prisma_transaction_create ::
  "env \<Rightarrow> database \<Rightarrow> json \<Rightarrow> json \<Rightarrow> real \<Rightarrow> string \<Rightarrow> real
     \<Rightarrow> (js_error + TransactionOutput) \<times> database" where
  "prisma_transaction_create e d uid description amount category confidence =
     (case uid of
        JStr u \<Rightarrow>
          (case description of
             JStr s \<Rightarrow>
               if find (\<lambda>x. user_id x = u) (users d) = None
               then (Inl (PrismaClientKnownRequestError ''P2003''), d)
               else
                 (Inr \<lparr>tx_id = cuid e, tx_userId = u, tx_description = s, tx_amount = amount,
                        tx_category = category, tx_confidence = confidence,
                        tx_createdAt = now e, tx_updatedAt = now e\<rparr>,
                  d\<lparr>transactions := transactions d @
                     [\<lparr>tx_id = cuid e, tx_userId = u, tx_description = s, tx_amount = amount,
                       tx_category = category, tx_confidence = confidence,
                       tx_createdAt = now e, tx_updatedAt = now e\<rparr>]\<rparr>)
           | _ \<Rightarrow> (Inl (PrismaClientValidationError ''Invalid value for argument description''), d))
      | _ \<Rightarrow> (Inl (PrismaClientValidationError ''Invalid value for argument userId''), d))"

text \<open>
  Modelled from the spec: the aggregate over the Transaction table of the missing schema,
  \<^verbatim>\<open>aggregate({ where: { userId, category }, _sum: { amount: true } })\<close>: the sum of the
  matching rows' amounts, \<^verbatim>\<open>null\<close> when no row matches. The amount is a double precision
  column, and the sum is taken as the database takes it: the rows are added one after the
  other, in the order the table holds them, each addition rounding to a double. (Adding
  the first amount to zero leaves a double as it is.) A sum beyond the range of the doubles
  is not modelled.
\<close>

definition matching :: "string \<Rightarrow> string \<Rightarrow> TransactionOutput \<Rightarrow> bool" where
  "matching userId category t = (tx_userId t = userId \<and> tx_category t = category)"

definition prisma_transaction_aggregate_sum ::
  "database \<Rightarrow> string \<Rightarrow> string \<Rightarrow> (js_error + real option) \<times> database" where
  "prisma_transaction_aggregate_sum d userId category =
     (case filter (matching userId category) (transactions d) of
        [] \<Rightarrow> (Inr None, d)
      | t # ts \<Rightarrow> (Inr (Some (float8_sum (map tx_amount (t # ts)))), d))"

text \<open>
  Modelled from the spec: the AlertRule table of the missing schema and its uniqueness
  constraint on (userId, category). \<^verbatim>\<open>findUnique\<close> by the pair is a point lookup;
  \<^verbatim>\<open>create\<close> refuses a second rule for a pair (P2002) and a rule for a user that does not
  exist (P2003), and makes the new rule active.
\<close>

definition same_pair :: "string \<Rightarrow> string \<Rightarrow> AlertRuleOutput \<Rightarrow> bool" where
  "same_pair userId category r = (ar_userId r = userId \<and> ar_category r = category)"

definition prisma_alertRule_findUnique ::
  "database \<Rightarrow> string \<Rightarrow> string \<Rightarrow> (js_error + AlertRuleOutput option) \<times> database" where
  "prisma_alertRule_findUnique d userId category =
     (Inr (find (same_pair userId category) (alertRules d)), d)"

definition prisma_alertRule_create ::
  "env \<Rightarrow> database \<Rightarrow> string \<Rightarrow> string \<Rightarrow> real \<Rightarrow> (js_error + AlertRuleOutput) \<times> database" where
  "prisma_alertRule_create e d userId category threshold =
     (if find (same_pair userId category) (alertRules d) \<noteq> None
      then (Inl (PrismaClientKnownRequestError ''P2002''), d)
      else if find (\<lambda>x. user_id x = userId) (users d) = None
      then (Inl (PrismaClientKnownRequestError ''P2003''), d)
      else
        (Inr \<lparr>ar_id = cuid e, ar_userId = userId, ar_category = category,
               ar_threshold = threshold, ar_isActive = True,
               ar_createdAt = now e, ar_updatedAt = now e\<rparr>,
         d\<lparr>alertRules := alertRules d @
            [\<lparr>ar_id = cuid e, ar_userId = userId, ar_category = category,
              ar_threshold = threshold, ar_isActive = True,
              ar_createdAt = now e, ar_updatedAt = now e\<rparr>]\<rparr>))"

section \<open>TransactionRepository (src/repositories/transaction.repository.ts)\<close>

text \<open>The template literal \<^verbatim>\<open>${data.userId}@sentinel.local\<close>.\<close>

fun default_email :: "env \<Rightarrow> json \<Rightarrow> string" where
  "default_email e (JStr u) = u @ ''@sentinel.local''"
| "default_email e v = toString_other e v @ ''@sentinel.local''"

text \<open>
  \<^verbatim>\<open>TransactionRepository.create\<close>: the inner \<^verbatim>\<open>try\<close> looks the user up and its \<^verbatim>\<open>catch\<close>,
  on any error, creates it; then the transaction is inserted. The outer \<^verbatim>\<open>catch\<close> logs and
  rethrows.
\<close>

definition TransactionRepository_create ::
  "env \<Rightarrow> database \<Rightarrow> TransactionCreate \<Rightarrow> (js_error + TransactionOutput) \<times> database" where
  "TransactionRepository_create e d data =
     (case prisma_user_findUniqueOrThrow d (ti_userId data) of
        (Inr u, d1) \<Rightarrow>
          prisma_transaction_create e d1 (ti_userId data) (ti_description data) (ti_amount data)
            (tc_category data) (tc_confidence data)
      | (Inl err, d1) \<Rightarrow>
          (case prisma_user_create d1 (ti_userId data) (default_email e (ti_userId data)) of
             (Inl err', d2) \<Rightarrow> (Inl err', d2)
           | (Inr u, d2) \<Rightarrow>
               prisma_transaction_create e d2 (ti_userId data) (ti_description data) (ti_amount data)
                 (tc_category data) (tc_confidence data)))"

text \<open>\<^verbatim>\<open>getTotalByCategory\<close>: \<^verbatim>\<open>result._sum.amount || 0\<close>.\<close>

definition getTotalByCategory ::
  "database \<Rightarrow> string \<Rightarrow> string \<Rightarrow> (js_error + real) \<times> database" where
  "getTotalByCategory d userId category =
     (case prisma_transaction_aggregate_sum d userId category of
        (Inl err, d1) \<Rightarrow> (Inl err, d1)
      | (Inr None, d1) \<Rightarrow> (Inr 0, d1)
      | (Inr (Some s), d1) \<Rightarrow> (Inr (if s = 0 then 0 else s), d1))"

section \<open>AlertRuleRepository (src/unnamed/part_005)\<close>

definition AlertRuleRepository_create ::
  "env \<Rightarrow> database \<Rightarrow> AlertRuleInput \<Rightarrow> (js_error + AlertRuleOutput) \<times> database" where
  "AlertRuleRepository_create e d data =
     prisma_alertRule_create e d (ai_userId data) (ai_category data) (ai_threshold data)"

definition findByUserAndCategory ::
  "database \<Rightarrow> string \<Rightarrow> string \<Rightarrow> (js_error + AlertRuleOutput option) \<times> database" where
  "findByUserAndCategory d userId category = prisma_alertRule_findUnique d userId category"

section \<open>The queue (queue.service.ts, in src/unnamed/part_003)\<close>

text \<open>
  \<^verbatim>\<open>alertQueue.add(name, data, opts)\<close> of BullMQ, awaited: \<open>Some (Inr ())\<close> when the promise
  resolves, the job stored; \<open>Some (Inl err)\<close> when it rejects; \<open>None\<close> when it stays pending,
  so that the caller never gets past the \<^verbatim>\<open>await\<close>.
\<close>

definition alertQueue_add ::
  "env \<Rightarrow> world \<Rightarrow> string \<Rightarrow> AlertQueueJob \<Rightarrow> JobOptions \<Rightarrow> (js_error + unit) option \<times> world" where
  "alertQueue_add e w name job opts =
     (case queue_add e of
        AddResolves \<Rightarrow> (Some (Inr ()), w\<lparr>jobs := jobs w @ [(name, job, opts)]\<rparr>)
      | AddRejects err \<Rightarrow> (Some (Inl err), w)
      | AddPending \<Rightarrow> (None, w))"

section \<open>TransactionService (src/unnamed/part_004)\<close>

text \<open>
  \<^verbatim>\<open>createTransaction\<close>: classify, save, enqueue, return the saved transaction. The \<^verbatim>\<open>catch\<close>
  around the three steps logs the error and throws it again. The result is \<open>None\<close> when the
  call neither returns nor throws, which is when the \<^verbatim>\<open>await\<close> of the queue stays pending.
\<close>

definition createTransaction ::
  "env \<Rightarrow> world \<Rightarrow> TransactionInput \<Rightarrow> (js_error + TransactionOutput) option \<times> world" where
  "createTransaction e w data =
     (case classifyTransaction e w (Some (ti_description data)) of
        (Inl err, w1) \<Rightarrow> (Some (Inl err), w1)
      | (Inr classification, w1) \<Rightarrow>
          (case TransactionRepository_create e (db w1)
                  \<lparr>ti_userId = ti_userId data, ti_description = ti_description data,
                   ti_amount = ti_amount data,
                   tc_category = cr_category classification,
                   tc_confidence = cr_confidence classification\<rparr> of
             (Inl err, d2) \<Rightarrow> (Some (Inl err), w1\<lparr>db := d2\<rparr>)
           | (Inr transaction, d2) \<Rightarrow>
               (case alertQueue_add e (w1\<lparr>db := d2\<rparr>) ''new-transaction''
                       \<lparr>job_userId = ti_userId data, job_transactionId = tx_id transaction,
                        job_category = tx_category transaction, job_amount = tx_amount transaction\<rparr>
                       \<lparr>attempts = 3, backoff_type = ''exponential'', backoff_delay = 2000\<rparr> of
                  (None, w3) \<Rightarrow> (None, w3)
                | (Some (Inl err), w3) \<Rightarrow> (Some (Inl err), w3)
                | (Some (Inr u), w3) \<Rightarrow> (Some (Inr transaction), w3))))"

section \<open>AlertService (alert.service.ts, in src/unnamed/part_003)\<close>

text \<open>The message of an alert; \<^verbatim>\<open>toFixed(2)\<close> is the environment's.\<close>

definition alert_message :: "env \<Rightarrow> string \<Rightarrow> real \<Rightarrow> real \<Rightarrow> string" where
  "alert_message e category totalSpent threshold =
     ''Alert: You'' @ [CHR 0x27] @ ''ve exceeded your '' @ category @ '' budget! Spent: $''
       @ toFixed2 e totalSpent @ '', Limit: $'' @ toFixed2 e threshold"

definition checkAndTriggerAlert ::
  "env \<Rightarrow> world \<Rightarrow> string \<Rightarrow> string \<Rightarrow> (js_error + AlertEvent option) \<times> world" where
  "checkAndTriggerAlert e w userId category =
     (case findByUserAndCategory (db w) userId category of
        (Inl err, d1) \<Rightarrow> (Inl err, w\<lparr>db := d1\<rparr>)
      | (Inr None, d1) \<Rightarrow> (Inr None, w\<lparr>db := d1\<rparr>)
      | (Inr (Some alertRule), d1) \<Rightarrow>
          if \<not> ar_isActive alertRule then (Inr None, w\<lparr>db := d1\<rparr>)
          else
            (case getTotalByCategory d1 userId category of
               (Inl err, d2) \<Rightarrow> (Inl err, w\<lparr>db := d2\<rparr>)
             | (Inr totalSpent, d2) \<Rightarrow>
                 if totalSpent > ar_threshold alertRule
                 then (Inr (Some \<lparr>ev_userId = userId, ev_category = category,
                                   ev_threshold = ar_threshold alertRule,
                                   ev_totalSpent = totalSpent,
                                   ev_message = alert_message e category totalSpent (ar_threshold alertRule),
                                   ev_triggeredAt = now e\<rparr>), w\<lparr>db := d2\<rparr>)
                 else (Inr None, w\<lparr>db := d2\<rparr>)))"

section \<open>The route handler \<^verbatim>\<open>POST /api/transactions\<close> (src/lib/api-response.ts, src/app/api/spending/route.ts)\<close>

record ApiResponse =
  res_success :: bool
  res_data :: "TransactionOutput option"
  res_error :: "string option"
  res_message :: "string option"
  res_statusCode :: nat

definition successResponse :: "TransactionOutput \<Rightarrow> nat \<Rightarrow> string \<Rightarrow> ApiResponse" where
  "successResponse data statusCode msg =
     \<lparr>res_success = True, res_data = Some data, res_error = None, res_message = Some msg,
      res_statusCode = statusCode\<rparr>"

definition errorResponse :: "string \<Rightarrow> nat \<Rightarrow> ApiResponse" where
  "errorResponse err statusCode =
     \<lparr>res_success = False, res_data = None, res_error = Some err, res_message = None,
      res_statusCode = statusCode\<rparr>"

text \<open>
  \<^verbatim>\<open>toHttpResponse\<close>: the HTTP response carries the status code of the API response and
  the API response itself as its body (before \<^verbatim>\<open>JSON.stringify\<close>).
\<close>

record Response =
  http_status :: nat
  http_body :: ApiResponse

definition toHttpResponse :: "ApiResponse \<Rightarrow> Response" where
  "toHttpResponse response = \<lparr>http_status = res_statusCode response, http_body = response\<rparr>"

text \<open>
  The handler, from the outcome of \<^verbatim>\<open>await request.json()\<close> on. Destructuring the body reads
  its three properties and throws on \<^verbatim>\<open>null\<close>; whatever is thrown inside the \<^verbatim>\<open>try\<close> becomes
  a response with status 500. Past the first test \<^verbatim>\<open>userId\<close> and \<^verbatim>\<open>description\<close> are defined,
  so the last case is that of an \<^verbatim>\<open>amount\<close> that is not a number. The handler responds
  (\<open>Some\<close>) unless \<^verbatim>\<open>createTransaction\<close> stays pending.
\<close>

definition POST :: "env \<Rightarrow> world \<Rightarrow> js_error + json \<Rightarrow> Response option \<times> world" where
  "POST e w request_json =
     (case request_json of
        Inl err \<Rightarrow> (Some (toHttpResponse (errorResponse (error_message err) 500)), w)
      | Inr body \<Rightarrow>
          (case getProp body ''userId'' of
             Inl err \<Rightarrow> (Some (toHttpResponse (errorResponse (error_message err) 500)), w)
           | Inr userId \<Rightarrow>
          (case getProp body ''description'' of
             Inl err \<Rightarrow> (Some (toHttpResponse (errorResponse (error_message err) 500)), w)
           | Inr description \<Rightarrow>
          (case getProp body ''amount'' of
             Inl err \<Rightarrow> (Some (toHttpResponse (errorResponse (error_message err) 500)), w)
           | Inr amount \<Rightarrow>
               if \<not> truthy userId \<or> \<not> truthy description \<or> amount = None
               then (Some (toHttpResponse (errorResponse ''Missing required fields: userId, description, amount'' 400)), w)
               else
                 (case (userId, description, amount) of
                    (Some u, Some s, Some (JNum a)) \<Rightarrow>
                      if a \<le> 0 then (Some (toHttpResponse (errorResponse ''Amount must be a positive number'' 400)), w)
                      else
                        (case createTransaction e w
                                \<lparr>ti_userId = u, ti_description = s, ti_amount = a\<rparr> of
                           (Some (Inl err), w') \<Rightarrow> (Some (toHttpResponse (errorResponse (error_message err) 500)), w')
                         | (None, w') \<Rightarrow> (None, w')
                         | (Some (Inr transaction), w') \<Rightarrow>
                             (Some (toHttpResponse (successResponse transaction 201 ''Transaction created successfully'')), w'))
                  | _ \<Rightarrow> (Some (toHttpResponse (errorResponse ''Amount must be a positive number'' 400)), w))))))"

section \<open>The spec's notions\<close>

text \<open>
  The invariant of the Alert Rule Store, in the spec's words: at most one rule per
  (userId, category) pair.
\<close>

definition rule_key :: "AlertRuleOutput \<Rightarrow> string \<times> string" where
  "rule_key r = (ar_userId r, ar_category r)"

definition unique_rules :: "database \<Rightarrow> bool" where
  "unique_rules d = distinct (map rule_key (alertRules d))"

text \<open>
  The total spend, in the spec's words: the sum of the amounts of all persisted
  transactions for (userId, category); a sum of doubles, taken as the store takes it.
\<close>

definition totalSpend :: "database \<Rightarrow> string \<Rightarrow> string \<Rightarrow> real" where
  "totalSpend d userId category =
     float8_sum (map tx_amount
       (filter (\<lambda>t. tx_userId t = userId \<and> tx_category t = category) (transactions d)))"

section \<open>Concrete scenarios\<close>

text \<open>
  An empty system, and an environment built from one reply of the language model, one
  result of \<^verbatim>\<open>JSON.parse\<close> and one outcome of \<^verbatim>\<open>alertQueue.add\<close>.
\<close>

definition empty_world :: world where
  "empty_world =
     \<lparr>db = \<lparr>users = [], transactions = [], alertRules = []\<rparr>, jobs = [], openai_requests = []\<rparr>"

definition test_env :: "js_error + string option \<Rightarrow> js_error + json \<Rightarrow> add_outcome \<Rightarrow> env" where
  "test_env reply parsed added =
     \<lparr>openai_reply = (\<lambda>d. reply), JSON_parse = (\<lambda>c. parsed), queue_add = added,
      cuid = ''tx1'', now = 1, toFixed2 = (\<lambda>x. ''0.00''), toString_other = (\<lambda>v. ''null'')\<rparr>"

text \<open>A rule, a stored transaction, and a system of two users with given rules and transactions.\<close>

definition rule_of :: "string \<Rightarrow> string \<Rightarrow> real \<Rightarrow> bool \<Rightarrow> AlertRuleOutput" where
  "rule_of userId category threshold active =
     \<lparr>ar_id = ''rule-'' @ userId @ ''-'' @ category, ar_userId = userId, ar_category = category,
      ar_threshold = threshold, ar_isActive = active, ar_createdAt = 0, ar_updatedAt = 0\<rparr>"

definition spend :: "string \<Rightarrow> string \<Rightarrow> string \<Rightarrow> real \<Rightarrow> TransactionOutput" where
  "spend txId userId category amount =
     \<lparr>tx_id = txId, tx_userId = userId, tx_description = ''purchase'', tx_amount = amount,
      tx_category = category, tx_confidence = 0.9, tx_createdAt = 0, tx_updatedAt = 0\<rparr>"

definition world_of :: "AlertRuleOutput list \<Rightarrow> TransactionOutput list \<Rightarrow> world" where
  "world_of rs ts =
     \<lparr>db = \<lparr>users = [\<lparr>user_id = ''u1'', user_email = ''u1@sentinel.local''\<rparr>,
                      \<lparr>user_id = ''u2'', user_email = ''u2@sentinel.local''\<rparr>],
            transactions = ts, alertRules = rs\<rparr>,
      jobs = [], openai_requests = []\<rparr>"


section \<open>Classification fails closed\<close>

text \<open>
  A result of the \<^verbatim>\<open>try\<close> block is the default, or it is the category and confidence of a
  reply that parsed and passed every test.
\<close>

lemma classifyTransaction_try_cases:
  "fst (classifyTransaction_try e w description) = Inr r \<Longrightarrow>
     r = default_classification \<or>
     (\<exists>s c v cat x. description = Some (JStr s) \<and> trim s \<noteq> [] \<and>
        openai_reply e s = Inr (Some c) \<and> c \<noteq> [] \<and> JSON_parse e c = Inr v \<and>
        getProp v ''category'' = Inr (Some (JStr cat)) \<and> cat \<in> set ALLOWED_CATEGORIES \<and>
        getProp v ''confidence'' = Inr (Some (JNum x)) \<and> 0 \<le> x \<and> x \<le> 1 \<and>
        r = \<lparr>cr_category = cat, cr_confidence = x\<rparr>)"
  unfolding classifyTransaction_try_def openai_create_def invalid_structure_def
  by (auto split: if_splits option.splits json.splits sum.splits prod.splits
      elim!: array_includes.elims)

lemma classifyTransaction_total:
  "\<exists>r w'. classifyTransaction e w description = (Inr r, w')"
  unfolding classifyTransaction_def
  by (auto split: prod.splits sum.splits)

lemma classifyTransaction_cases:
  assumes "fst (classifyTransaction e w description) = Inr r"
  shows "r = default_classification \<or>
     (\<exists>s c v cat x. description = Some (JStr s) \<and> trim s \<noteq> [] \<and>
        openai_reply e s = Inr (Some c) \<and> c \<noteq> [] \<and> JSON_parse e c = Inr v \<and>
        getProp v ''category'' = Inr (Some (JStr cat)) \<and> cat \<in> set ALLOWED_CATEGORIES \<and>
        getProp v ''confidence'' = Inr (Some (JNum x)) \<and> 0 \<le> x \<and> x \<le> 1 \<and>
        r = \<lparr>cr_category = cat, cr_confidence = x\<rparr>)"
proof (cases "fst (classifyTransaction_try e w description)")
  case (Inl err)
  with assms have "r = default_classification"
    by (auto simp: classifyTransaction_def split: prod.splits sum.splits)
  then show ?thesis ..
next
  case (Inr r')
  with assms have "r' = r"
    by (auto simp: classifyTransaction_def split: prod.splits sum.splits)
  with Inr show ?thesis
    using classifyTransaction_try_cases [of e w description r] by simp
qed

lemma classifyTransaction_default_unless:
  assumes "\<And>s c v cat x. description = Some (JStr s) \<Longrightarrow> openai_reply e s = Inr (Some c) \<Longrightarrow>
     JSON_parse e c = Inr v \<Longrightarrow> getProp v ''category'' = Inr (Some (JStr cat)) \<Longrightarrow>
     cat \<in> set ALLOWED_CATEGORIES \<Longrightarrow> getProp v ''confidence'' = Inr (Some (JNum x)) \<Longrightarrow>
     0 \<le> x \<Longrightarrow> x \<le> 1 \<Longrightarrow> False"
  shows "fst (classifyTransaction e w description) = Inr default_classification"
proof -
  obtain r w' where r: "classifyTransaction e w description = (Inr r, w')"
    using classifyTransaction_total by blast
  then have "fst (classifyTransaction e w description) = Inr r" by simp
  from classifyTransaction_cases [OF this] assms have "r = default_classification" by blast
  with r show ?thesis by simp
qed

text \<open>
  C3. \<^verbatim>\<open>classifyTransaction\<close> never raises: for every environment, state and description
  (a string or any other value) it returns a classification. It returns the default when
  the description is not a string, when the call to the language model fails, when the
  reply has no content, does not parse, or parses to something that is not an object,
  when the category is not one of the allowed ones (also when it is missing or not a string),
  and when the confidence is below 0, above 1, missing or not a number. The default is the last
  allowed category, Shopping, with confidence 0.5.
\<close>

theorem classifyTransaction_fails_closed:
  "(\<exists>r w'. classifyTransaction e w description = (Inr r, w'))
   \<and> ((\<forall>s. description \<noteq> Some (JStr s)) \<longrightarrow>
        fst (classifyTransaction e w description) = Inr default_classification)
   \<and> (openai_reply e s = Inl err \<longrightarrow>
        fst (classifyTransaction e w (Some (JStr s))) = Inr default_classification)
   \<and> (openai_reply e s = Inr None \<longrightarrow>
        fst (classifyTransaction e w (Some (JStr s))) = Inr default_classification)
   \<and> (openai_reply e s = Inr (Some c) \<and> JSON_parse e c = Inl err \<longrightarrow>
        fst (classifyTransaction e w (Some (JStr s))) = Inr default_classification)
   \<and> (openai_reply e s = Inr (Some c) \<and> JSON_parse e c = Inr v \<and> (\<forall>kvs. v \<noteq> JObj kvs) \<longrightarrow>
        fst (classifyTransaction e w (Some (JStr s))) = Inr default_classification)
   \<and> (openai_reply e s = Inr (Some c) \<and> JSON_parse e c = Inr (JObj kvs) \<and>
        \<not> array_includes ALLOWED_CATEGORIES (map_of kvs ''category'') \<longrightarrow>
        fst (classifyTransaction e w (Some (JStr s))) = Inr default_classification)
   \<and> (openai_reply e s = Inr (Some c) \<and> JSON_parse e c = Inr (JObj kvs) \<and>
        map_of kvs ''confidence'' = Some (JNum x) \<and> (x < 0 \<or> 1 < x) \<longrightarrow>
        fst (classifyTransaction e w (Some (JStr s))) = Inr default_classification)
   \<and> (openai_reply e s = Inr (Some c) \<and> JSON_parse e c = Inr (JObj kvs) \<and>
        (\<forall>x. map_of kvs ''confidence'' \<noteq> Some (JNum x)) \<longrightarrow>
        fst (classifyTransaction e w (Some (JStr s))) = Inr default_classification)
   \<and> default_classification = \<lparr>cr_category = last ALLOWED_CATEGORIES, cr_confidence = 0.5\<rparr>
   \<and> last ALLOWED_CATEGORIES = ''Shopping''"
proof -
  have total: "\<exists>r w'. classifyTransaction e w description = (Inr r, w')"
    by (rule classifyTransaction_total)
  have nonstr: "(\<forall>s. description \<noteq> Some (JStr s)) \<longrightarrow>
        fst (classifyTransaction e w description) = Inr default_classification"
    by (auto intro: classifyTransaction_default_unless)
  have callfail: "openai_reply e s = Inl err \<longrightarrow>
        fst (classifyTransaction e w (Some (JStr s))) = Inr default_classification"
    by (auto intro!: classifyTransaction_default_unless)
  have nocontent: "openai_reply e s = Inr None \<longrightarrow>
        fst (classifyTransaction e w (Some (JStr s))) = Inr default_classification"
    by (auto intro!: classifyTransaction_default_unless)
  have badjson: "openai_reply e s = Inr (Some c) \<and> JSON_parse e c = Inl err \<longrightarrow>
        fst (classifyTransaction e w (Some (JStr s))) = Inr default_classification"
    by (auto intro!: classifyTransaction_default_unless)
  have notobj: "openai_reply e s = Inr (Some c) \<and> JSON_parse e c = Inr v \<and> (\<forall>kvs. v \<noteq> JObj kvs) \<longrightarrow>
        fst (classifyTransaction e w (Some (JStr s))) = Inr default_classification"
    by (cases v) (auto intro!: classifyTransaction_default_unless)
  have badcat: "openai_reply e s = Inr (Some c) \<and> JSON_parse e c = Inr (JObj kvs) \<and>
        \<not> array_includes ALLOWED_CATEGORIES (map_of kvs ''category'') \<longrightarrow>
        fst (classifyTransaction e w (Some (JStr s))) = Inr default_classification"
    by (auto intro!: classifyTransaction_default_unless)
  have badconf: "openai_reply e s = Inr (Some c) \<and> JSON_parse e c = Inr (JObj kvs) \<and>
        map_of kvs ''confidence'' = Some (JNum x) \<and> (x < 0 \<or> 1 < x) \<longrightarrow>
        fst (classifyTransaction e w (Some (JStr s))) = Inr default_classification"
    by (auto intro!: classifyTransaction_default_unless)
  have nonnum: "openai_reply e s = Inr (Some c) \<and> JSON_parse e c = Inr (JObj kvs) \<and>
        (\<forall>x. map_of kvs ''confidence'' \<noteq> Some (JNum x)) \<longrightarrow>
        fst (classifyTransaction e w (Some (JStr s))) = Inr default_classification"
    by (auto intro!: classifyTransaction_default_unless)
  have dflt: "default_classification = \<lparr>cr_category = last ALLOWED_CATEGORIES, cr_confidence = 0.5\<rparr>"
    by (simp add: default_classification_def ALLOWED_CATEGORIES_def)
  have lst: "last ALLOWED_CATEGORIES = ''Shopping''"
    by (simp add: ALLOWED_CATEGORIES_def)
  from total nonstr callfail nocontent badjson notobj badcat badconf nonnum dflt lst
  show ?thesis by blast
qed

text \<open>
  The theorem at three replies: the call fails; the category is Gambling; the confidence
  is 1.5.
\<close>

theorem classifyTransaction_fails_closed_witness:
  "fst (classifyTransaction (test_env (Inl (Error ''timeout'')) (Inl (SyntaxError ''unused'')) AddResolves)
          empty_world (Some (JStr ''Lottery ticket'')))
     = Inr \<lparr>cr_category = ''Shopping'', cr_confidence = 0.5\<rparr>
   \<and> fst (classifyTransaction
          (test_env (Inr (Some ''reply''))
             (Inr (JObj [(''category'', JStr ''Gambling''), (''confidence'', JNum 0.9)])) AddResolves)
          empty_world (Some (JStr ''Lottery ticket'')))
     = Inr \<lparr>cr_category = ''Shopping'', cr_confidence = 0.5\<rparr>
   \<and> fst (classifyTransaction
          (test_env (Inr (Some ''reply''))
             (Inr (JObj [(''category'', JStr ''Food''), (''confidence'', JNum 1.5)])) AddResolves)
          empty_world (Some (JStr ''Lottery ticket'')))
     = Inr \<lparr>cr_category = ''Shopping'', cr_confidence = 0.5\<rparr>"
  using
    classifyTransaction_fails_closed
      [where e = "test_env (Inl (Error ''timeout'')) (Inl (SyntaxError ''unused'')) AddResolves"
         and s = "''Lottery ticket''" and err = "Error ''timeout''" and w = empty_world]
    classifyTransaction_fails_closed
      [where e = "test_env (Inr (Some ''reply''))
             (Inr (JObj [(''category'', JStr ''Gambling''), (''confidence'', JNum 0.9)])) AddResolves"
         and s = "''Lottery ticket''" and c = "''reply''" and w = empty_world
         and kvs = "[(''category'', JStr ''Gambling''), (''confidence'', JNum 0.9)]"]
    classifyTransaction_fails_closed
      [where e = "test_env (Inr (Some ''reply''))
             (Inr (JObj [(''category'', JStr ''Food''), (''confidence'', JNum 1.5)])) AddResolves"
         and s = "''Lottery ticket''" and c = "''reply''" and w = empty_world
         and kvs = "[(''category'', JStr ''Food''), (''confidence'', JNum 1.5)]" and x = "1.5"]
  by (simp add: test_env_def ALLOWED_CATEGORIES_def default_classification_def)

section \<open>What \<^verbatim>\<open>createTransaction\<close> stores and returns\<close>

lemma find_user_after_append:
  "find (\<lambda>x. user_id x = u) (xs @ [\<lparr>user_id = u, user_email = m\<rparr>]) \<noteq> None"
  by (induction xs) auto

lemma TransactionRepository_create_fields:
  "fst (TransactionRepository_create e d data) = Inr t \<Longrightarrow>
     tx_category t = tc_category data \<and> tx_confidence t = tc_confidence data \<and>
     tx_amount t = ti_amount data \<and> ti_userId data = JStr (tx_userId t) \<and>
     ti_description data = JStr (tx_description t)"
  unfolding TransactionRepository_create_def prisma_user_findUniqueOrThrow_def
    prisma_user_create_def prisma_transaction_create_def
  by (auto split: option.splits json.splits if_splits)

lemma TransactionRepository_create_string:
  assumes "ti_userId data = JStr u" and "ti_description data = JStr s"
  shows "TransactionRepository_create e d data =
    (Inr \<lparr>tx_id = cuid e, tx_userId = u, tx_description = s, tx_amount = ti_amount data,
           tx_category = tc_category data, tx_confidence = tc_confidence data,
           tx_createdAt = now e, tx_updatedAt = now e\<rparr>,
     d\<lparr>users := (if find (\<lambda>x. user_id x = u) (users d) = None
                  then users d @ [\<lparr>user_id = u, user_email = u @ ''@sentinel.local''\<rparr>]
                  else users d),
       transactions := transactions d @
         [\<lparr>tx_id = cuid e, tx_userId = u, tx_description = s, tx_amount = ti_amount data,
           tx_category = tc_category data, tx_confidence = tc_confidence data,
           tx_createdAt = now e, tx_updatedAt = now e\<rparr>]\<rparr>)"
  using assms find_user_after_append [of u "users d" "u @ ''@sentinel.local''"]
  unfolding TransactionRepository_create_def prisma_user_findUniqueOrThrow_def
    prisma_user_create_def prisma_transaction_create_def
  by (auto split: option.splits)

lemma createTransaction_classified:
  assumes "fst (createTransaction e w data) = Some (Inr t)"
  shows "\<exists>r. fst (classifyTransaction e w (Some (ti_description data))) = Inr r \<and>
     tx_category t = cr_category r \<and> tx_confidence t = cr_confidence r"
proof -
  obtain r w1 where c: "classifyTransaction e w (Some (ti_description data)) = (Inr r, w1)"
    using classifyTransaction_total by blast
  obtain res d2 where p: "TransactionRepository_create e (db w1)
           \<lparr>ti_userId = ti_userId data, ti_description = ti_description data,
             ti_amount = ti_amount data, tc_category = cr_category r,
             tc_confidence = cr_confidence r\<rparr> = (res, d2)"
    by (cases "TransactionRepository_create e (db w1)
           \<lparr>ti_userId = ti_userId data, ti_description = ti_description data,
             ti_amount = ti_amount data, tc_category = cr_category r,
             tc_confidence = cr_confidence r\<rparr>") auto
  from assms c p have "res = Inr t"
    by (auto simp: createTransaction_def alertQueue_add_def split: sum.splits add_outcome.splits)
  with p have "fst (TransactionRepository_create e (db w1)
           \<lparr>ti_userId = ti_userId data, ti_description = ti_description data,
             ti_amount = ti_amount data, tc_category = cr_category r,
             tc_confidence = cr_confidence r\<rparr>) = Inr t" by simp
  from TransactionRepository_create_fields [OF this]
  have "tx_category t = cr_category r \<and> tx_confidence t = cr_confidence r" by simp
  with c show ?thesis by simp
qed

lemma createTransaction_returns:
  assumes "ti_userId data = JStr u" and "ti_description data = JStr s"
    and "queue_add e = AddResolves"
  shows "\<exists>t w'. createTransaction e w data = (Some (Inr t), w')"
proof -
  obtain r w1 where c: "classifyTransaction e w (Some (ti_description data)) = (Inr r, w1)"
    using classifyTransaction_total by blast
  show ?thesis
    using assms c
    by (simp add: createTransaction_def alertQueue_add_def TransactionRepository_create_string)
qed

text \<open>
  White space only trims to the empty string. No code of \<open>whiteSpace\<close> begins another, so a
  string made of codes is stripped code by code.
\<close>

lemma strip_unchanged:
  "find (\<lambda>p. p \<noteq> [] \<and> take (length p) s = p) codes = None \<Longrightarrow> strip codes s = s"
  by (subst strip.simps) simp

lemma strip_step:
  "find (\<lambda>p. p \<noteq> [] \<and> take (length p) s = p) codes = Some p \<Longrightarrow>
     strip codes s = strip codes (drop (length p) s)"
  by (subst strip.simps) simp

lemma strip_Nil: "strip codes [] = []"
  by (rule strip_unchanged) (auto simp: find_None_iff)

lemma whiteSpace_prefix_free:
  "list_all (\<lambda>p. list_all (\<lambda>q. take (length q) p = q \<longrightarrow> q = p) whiteSpace) whiteSpace"
  by code_simp

lemma whiteSpace_nonempty: "[] \<notin> set whiteSpace"
  by (simp add: whiteSpace_def)

lemma whiteSpace_find:
  assumes p: "p \<in> set whiteSpace"
  shows "find (\<lambda>q. q \<noteq> [] \<and> take (length q) (p @ r) = q) whiteSpace = Some p"
proof -
  from p whiteSpace_nonempty have "p \<noteq> [] \<and> take (length p) (p @ r) = p"
    by auto
  with p have "find (\<lambda>q. q \<noteq> [] \<and> take (length q) (p @ r) = q) whiteSpace \<noteq> None"
    by (auto simp: find_None_iff)
  then obtain q where f: "find (\<lambda>q. q \<noteq> [] \<and> take (length q) (p @ r) = q) whiteSpace = Some q"
    by auto
  then have q: "q \<in> set whiteSpace" and t: "take (length q) (p @ r) = q"
    by (auto simp: find_Some_iff)
  have free: "\<And>a b. a \<in> set whiteSpace \<Longrightarrow> b \<in> set whiteSpace \<Longrightarrow> take (length b) a = b \<Longrightarrow> b = a"
    using whiteSpace_prefix_free by (auto simp: list_all_iff)
  have "q = p"
  proof (cases "length q \<le> length p")
    case True
    with t have "take (length q) p = q" by simp
    with free [OF p q] show ?thesis .
  next
    case False
    then have "take (length p) q = take (length p) (take (length q) (p @ r))"
      using t by simp
    also have "\<dots> = p" using False by (simp add: min_def)
    finally have "take (length p) q = p" .
    with free [OF q p] show ?thesis by simp
  qed
  with f show ?thesis by simp
qed

lemma strip_whiteSpace: "set ps \<subseteq> set whiteSpace \<Longrightarrow> strip whiteSpace (concat ps) = []"
proof (induction ps)
  case Nil
  show ?case by (simp add: strip_Nil)
next
  case (Cons p ps)
  then have p: "p \<in> set whiteSpace" and ps: "strip whiteSpace (concat ps) = []"
    by simp_all
  from strip_step [OF whiteSpace_find [OF p, of "concat ps"]] ps
  show ?case by simp
qed

lemma trim_blank: "set ps \<subseteq> set whiteSpace \<Longrightarrow> trim (concat ps) = []"
  by (simp add: trim_def strip_whiteSpace strip_Nil)

lemma trim_Coffee: "trim ''Coffee'' = ''Coffee''"
  by (simp add: trim_def strip_unchanged whiteSpace_def)

lemma classifyTransaction_blank:
  assumes "description = None \<or> (\<exists>s. description = Some (JStr s) \<and> trim s = [])"
  shows "classifyTransaction e w description = (Inr default_classification, w)"
  using assms
  by (auto simp: classifyTransaction_def classifyTransaction_try_def)

text \<open>
  C4. A transaction that \<^verbatim>\<open>createTransaction\<close> returns has a category of the allowed set
  (Food, Transport, Utilities, Entertainment, Shopping) and a confidence in [0,1], whatever
  the language model replies and whatever \<^verbatim>\<open>JSON.parse\<close> makes of it; and on a valid input
  (a non-empty user id, a non-empty description, a positive amount), with the queue
  storing the job, it does return a transaction.
\<close>

theorem createTransaction_category_confidence:
  "(fst (createTransaction e w data) = Some (Inr t) \<longrightarrow>
      tx_category t \<in> {''Food'', ''Transport'', ''Utilities'', ''Entertainment'', ''Shopping''} \<and>
      0 \<le> tx_confidence t \<and> tx_confidence t \<le> 1)
   \<and> (ti_userId data = JStr u \<and> u \<noteq> [] \<and> ti_description data = JStr s \<and> s \<noteq> [] \<and>
      0 < ti_amount data \<and> queue_add e = AddResolves \<longrightarrow>
        (\<exists>t' w'. createTransaction e w data = (Some (Inr t'), w')))
   \<and> set ALLOWED_CATEGORIES = {''Food'', ''Transport'', ''Utilities'', ''Entertainment'', ''Shopping''}"
proof -
  have allowed: "set ALLOWED_CATEGORIES = {''Food'', ''Transport'', ''Utilities'', ''Entertainment'', ''Shopping''}"
    by (simp add: ALLOWED_CATEGORIES_def)
  have range: "fst (createTransaction e w data) = Some (Inr t) \<longrightarrow>
      tx_category t \<in> set ALLOWED_CATEGORIES \<and> 0 \<le> tx_confidence t \<and> tx_confidence t \<le> 1"
  proof
    assume "fst (createTransaction e w data) = Some (Inr t)"
    then obtain r where r: "fst (classifyTransaction e w (Some (ti_description data))) = Inr r"
      and t: "tx_category t = cr_category r" "tx_confidence t = cr_confidence r"
      using createTransaction_classified by blast
    from classifyTransaction_cases [OF r]
    have "cr_category r \<in> set ALLOWED_CATEGORIES \<and> 0 \<le> cr_confidence r \<and> cr_confidence r \<le> 1"
      by (auto simp: default_classification_def ALLOWED_CATEGORIES_def)
    with t show "tx_category t \<in> set ALLOWED_CATEGORIES \<and> 0 \<le> tx_confidence t \<and> tx_confidence t \<le> 1"
      by simp
  qed
  have returns: "ti_userId data = JStr u \<and> u \<noteq> [] \<and> ti_description data = JStr s \<and> s \<noteq> [] \<and>
      0 < ti_amount data \<and> queue_add e = AddResolves \<longrightarrow>
        (\<exists>t' w'. createTransaction e w data = (Some (Inr t'), w'))"
    using createTransaction_returns [of data u s e w] by blast
  from range returns allowed show ?thesis by simp
qed

text \<open>The theorem on a run that classifies a coffee as Food with confidence 0.9.\<close>

theorem createTransaction_category_confidence_witness:
  "fst (createTransaction (test_env (Inr (Some ''reply''))
       (Inr (JObj [(''category'', JStr ''Food''), (''confidence'', JNum 0.9)])) AddResolves)
     empty_world \<lparr>ti_userId = JStr ''u1'', ti_description = JStr ''Coffee'', ti_amount = 5\<rparr>)
     = Some (Inr \<lparr>tx_id = ''tx1'', tx_userId = ''u1'', tx_description = ''Coffee'', tx_amount = 5,
             tx_category = ''Food'', tx_confidence = 0.9,
             tx_createdAt = 1, tx_updatedAt = 1\<rparr>)
   \<and> ''Food'' \<in> {''Food'', ''Transport'', ''Utilities'', ''Entertainment'', ''Shopping''}
   \<and> (0::real) \<le> 0.9 \<and> (0.9::real) \<le> 1"
proof -
  have run: "fst (createTransaction (test_env (Inr (Some ''reply''))
       (Inr (JObj [(''category'', JStr ''Food''), (''confidence'', JNum 0.9)])) AddResolves)
     empty_world \<lparr>ti_userId = JStr ''u1'', ti_description = JStr ''Coffee'', ti_amount = 5\<rparr>)
     = Some (Inr \<lparr>tx_id = ''tx1'', tx_userId = ''u1'', tx_description = ''Coffee'', tx_amount = 5,
             tx_category = ''Food'', tx_confidence = 0.9,
             tx_createdAt = 1, tx_updatedAt = 1\<rparr>)"
    by (simp add: createTransaction_def classifyTransaction_def classifyTransaction_try_def
        openai_create_def invalid_structure_def ALLOWED_CATEGORIES_def test_env_def
        trim_Coffee alertQueue_add_def TransactionRepository_create_string)
  with createTransaction_category_confidence
      [where e = "test_env (Inr (Some ''reply''))
         (Inr (JObj [(''category'', JStr ''Food''), (''confidence'', JNum 0.9)])) AddResolves"
        and w = empty_world
        and data = "\<lparr>ti_userId = JStr ''u1'', ti_description = JStr ''Coffee'', ti_amount = 5\<rparr>"
        and t = "\<lparr>tx_id = ''tx1'', tx_userId = ''u1'', tx_description = ''Coffee'', tx_amount = 5,
             tx_category = ''Food'', tx_confidence = 0.9,
             tx_createdAt = 1, tx_updatedAt = 1\<rparr>"]
  show ?thesis by simp
qed

text \<open>
  C10. On a description that is \<^verbatim>\<open>undefined\<close>, or a string that \<^verbatim>\<open>trim\<close> leaves empty,
  \<^verbatim>\<open>classifyTransaction\<close> returns Shopping with confidence 0.5 and sends nothing to the
  language model. Such are the empty string and every string made of white space only,
  whichever of the white space characters of the language they are. \<^verbatim>\<open>createTransaction\<close> on
  such a description (a string) does not fail at classification: it stores a transaction
  with Shopping and 0.5, and returns it when the queue stores the job.
\<close>

theorem classifyTransaction_empty_description:
  "((description = None \<or> description = Some (JStr s) \<and> trim s = []) \<longrightarrow>
      classifyTransaction e w description
        = (Inr \<lparr>cr_category = ''Shopping'', cr_confidence = 0.5\<rparr>, w))
   \<and> (set ps \<subseteq> set whiteSpace \<longrightarrow> trim (concat ps) = [])
   \<and> (ti_userId data = JStr u \<and> ti_description data = JStr s \<and> trim s = [] \<longrightarrow>
        transactions (db (snd (createTransaction e w data))) = transactions (db w) @
           [\<lparr>tx_id = cuid e, tx_userId = u, tx_description = s, tx_amount = ti_amount data,
             tx_category = ''Shopping'', tx_confidence = 0.5,
             tx_createdAt = now e, tx_updatedAt = now e\<rparr>]
        \<and> fst (createTransaction e w data) =
            (case queue_add e of
               AddResolves \<Rightarrow>
                 Some (Inr \<lparr>tx_id = cuid e, tx_userId = u, tx_description = s,
                   tx_amount = ti_amount data, tx_category = ''Shopping'', tx_confidence = 0.5,
                   tx_createdAt = now e, tx_updatedAt = now e\<rparr>)
             | AddRejects err \<Rightarrow> Some (Inl err)
             | AddPending \<Rightarrow> None))"
proof -
  have one: "(description = None \<or> description = Some (JStr s) \<and> trim s = []) \<longrightarrow>
      classifyTransaction e w description
        = (Inr \<lparr>cr_category = ''Shopping'', cr_confidence = 0.5\<rparr>, w)"
    using classifyTransaction_blank [of description e w]
    by (auto simp: default_classification_def)
  have blank: "set ps \<subseteq> set whiteSpace \<longrightarrow> trim (concat ps) = []"
    by (simp add: trim_blank)
  have two: "ti_userId data = JStr u \<and> ti_description data = JStr s \<and> trim s = [] \<longrightarrow>
        transactions (db (snd (createTransaction e w data))) = transactions (db w) @
           [\<lparr>tx_id = cuid e, tx_userId = u, tx_description = s, tx_amount = ti_amount data,
             tx_category = ''Shopping'', tx_confidence = 0.5,
             tx_createdAt = now e, tx_updatedAt = now e\<rparr>]
        \<and> fst (createTransaction e w data) =
            (case queue_add e of
               AddResolves \<Rightarrow>
                 Some (Inr \<lparr>tx_id = cuid e, tx_userId = u, tx_description = s,
                   tx_amount = ti_amount data, tx_category = ''Shopping'', tx_confidence = 0.5,
                   tx_createdAt = now e, tx_updatedAt = now e\<rparr>)
             | AddRejects err \<Rightarrow> Some (Inl err)
             | AddPending \<Rightarrow> None)"
  proof
    assume a: "ti_userId data = JStr u \<and> ti_description data = JStr s \<and> trim s = []"
    then have c: "classifyTransaction e w (Some (JStr s)) = (Inr default_classification, w)"
      using classifyTransaction_blank [of "Some (JStr s)" e w] by simp
    from a show "transactions (db (snd (createTransaction e w data))) = transactions (db w) @
           [\<lparr>tx_id = cuid e, tx_userId = u, tx_description = s, tx_amount = ti_amount data,
             tx_category = ''Shopping'', tx_confidence = 0.5,
             tx_createdAt = now e, tx_updatedAt = now e\<rparr>]
        \<and> fst (createTransaction e w data) =
            (case queue_add e of
               AddResolves \<Rightarrow>
                 Some (Inr \<lparr>tx_id = cuid e, tx_userId = u, tx_description = s,
                   tx_amount = ti_amount data, tx_category = ''Shopping'', tx_confidence = 0.5,
                   tx_createdAt = now e, tx_updatedAt = now e\<rparr>)
             | AddRejects err \<Rightarrow> Some (Inl err)
             | AddPending \<Rightarrow> None)"
      by (simp add: createTransaction_def c alertQueue_add_def TransactionRepository_create_string
          default_classification_def split: add_outcome.splits)
  qed
  from one blank two show ?thesis by simp
qed

text \<open>
  The theorem on a description that is one no-break space (U+00A0), on one of a space, a
  tab and a line separator (U+2028), and on the empty description. The language model
  would have answered Food with 0.9.
\<close>

theorem classifyTransaction_empty_description_witness:
  "classifyTransaction (test_env (Inr (Some ''reply''))
       (Inr (JObj [(''category'', JStr ''Food''), (''confidence'', JNum 0.9)])) AddResolves)
     empty_world (Some (JStr [CHR 0xC2, CHR 0xA0]))
     = (Inr \<lparr>cr_category = ''Shopping'', cr_confidence = 0.5\<rparr>, empty_world)
   \<and> classifyTransaction (test_env (Inr (Some ''reply''))
       (Inr (JObj [(''category'', JStr ''Food''), (''confidence'', JNum 0.9)])) AddResolves)
     empty_world (Some (JStr [CHR 0x20, CHR 0x09, CHR 0xE2, CHR 0x80, CHR 0xA8]))
     = (Inr \<lparr>cr_category = ''Shopping'', cr_confidence = 0.5\<rparr>, empty_world)
   \<and> fst (createTransaction (test_env (Inr (Some ''reply''))
       (Inr (JObj [(''category'', JStr ''Food''), (''confidence'', JNum 0.9)])) AddResolves)
     empty_world \<lparr>ti_userId = JStr ''u1'', ti_description = JStr [], ti_amount = 5\<rparr>)
     = Some (Inr \<lparr>tx_id = ''tx1'', tx_userId = ''u1'', tx_description = [], tx_amount = 5,
             tx_category = ''Shopping'', tx_confidence = 0.5,
             tx_createdAt = 1, tx_updatedAt = 1\<rparr>)"
proof -
  let ?e = "test_env (Inr (Some ''reply''))
       (Inr (JObj [(''category'', JStr ''Food''), (''confidence'', JNum 0.9)])) AddResolves"
  have nbsp: "trim [CHR 0xC2, CHR 0xA0] = []"
    using classifyTransaction_empty_description [where ps = "[[CHR 0xC2, CHR 0xA0]]"]
    by (simp add: whiteSpace_def)
  have mixed: "trim [CHR 0x20, CHR 0x09, CHR 0xE2, CHR 0x80, CHR 0xA8] = []"
    using classifyTransaction_empty_description
      [where ps = "[[CHR 0x20], [CHR 0x09], [CHR 0xE2, CHR 0x80, CHR 0xA8]]"]
    by (simp add: whiteSpace_def)
  have empty: "trim [] = []"
    using classifyTransaction_empty_description [where ps = "[]"]
    by simp
  from nbsp mixed empty
    classifyTransaction_empty_description
      [where e = ?e and w = empty_world and description = "Some (JStr [CHR 0xC2, CHR 0xA0])"
        and s = "[CHR 0xC2, CHR 0xA0]"]
    classifyTransaction_empty_description
      [where e = ?e and w = empty_world
        and description = "Some (JStr [CHR 0x20, CHR 0x09, CHR 0xE2, CHR 0x80, CHR 0xA8])"
        and s = "[CHR 0x20, CHR 0x09, CHR 0xE2, CHR 0x80, CHR 0xA8]"]
    classifyTransaction_empty_description
      [where e = ?e and w = empty_world and s = "[]" and u = "''u1''"
        and data = "\<lparr>ti_userId = JStr ''u1'', ti_description = JStr [], ti_amount = 5\<rparr>"]
  show ?thesis
    by (simp add: test_env_def)
qed

section \<open>The store provisions the user\<close>

lemma classifyTransaction_frame:
  "db (snd (classifyTransaction e w description)) = db w \<and>
   jobs (snd (classifyTransaction e w description)) = jobs w"
  unfolding classifyTransaction_def classifyTransaction_try_def openai_create_def
  by (auto split: if_splits option.splits json.splits sum.splits prod.splits)

lemma find_user_None: "(find (\<lambda>x. user_id x = u) xs = None) = (u \<notin> user_id ` set xs)"
  by (auto simp: find_None_iff)

lemma TransactionRepository_create_stored:
  "TransactionRepository_create e d data = (Inr t, d') \<Longrightarrow>
     transactions d' = transactions d @ [t]"
  unfolding TransactionRepository_create_def prisma_user_findUniqueOrThrow_def
    prisma_user_create_def prisma_transaction_create_def
  by (auto split: option.splits json.splits if_splits)

text \<open>
  C5. \<^verbatim>\<open>TransactionRepository.create\<close>, called with a user id (a string) and a description
  (a string): when no user has that id, the insert alone would be refused (foreign key),
  and \<^verbatim>\<open>create\<close> adds the user, with the default email, and then the transaction, and
  succeeds; when the user exists, the users are unchanged and only the transaction is
  added. So \<^verbatim>\<open>createTransaction\<close>, with the queue storing the job, succeeds for any user
  id, and afterwards the user exists.
\<close>

theorem TransactionRepository_create_provisions_user:
  "(ti_userId data = JStr u \<and> ti_description data = JStr s \<and>
      u \<notin> user_id ` set (users d) \<longrightarrow>
        fst (prisma_transaction_create e d (ti_userId data) (ti_description data) (ti_amount data)
               (tc_category data) (tc_confidence data))
          = Inl (PrismaClientKnownRequestError ''P2003'')
        \<and> (\<exists>t. TransactionRepository_create e d data =
              (Inr t, d\<lparr>users := users d @ [\<lparr>user_id = u, user_email = u @ ''@sentinel.local''\<rparr>],
                        transactions := transactions d @ [t]\<rparr>)))
   \<and> (ti_userId data = JStr u \<and> ti_description data = JStr s \<and>
      u \<in> user_id ` set (users d) \<longrightarrow>
        (\<exists>t. TransactionRepository_create e d data =
              (Inr t, d\<lparr>transactions := transactions d @ [t]\<rparr>)))
   \<and> (ti_userId inp = JStr u \<and> ti_description inp = JStr s \<and>
      queue_add e = AddResolves \<longrightarrow>
        (\<exists>t w'. createTransaction e w inp = (Some (Inr t), w') \<and> tx_userId t = u \<and>
           u \<in> user_id ` set (users (db w')) \<and>
           users (db w') =
             (if u \<in> user_id ` set (users (db w)) then users (db w)
              else users (db w) @ [\<lparr>user_id = u, user_email = u @ ''@sentinel.local''\<rparr>])))"
proof -
  have absent: "ti_userId data = JStr u \<and> ti_description data = JStr s \<and>
      u \<notin> user_id ` set (users d) \<longrightarrow>
        fst (prisma_transaction_create e d (ti_userId data) (ti_description data) (ti_amount data)
               (tc_category data) (tc_confidence data))
          = Inl (PrismaClientKnownRequestError ''P2003'')
        \<and> (\<exists>t. TransactionRepository_create e d data =
              (Inr t, d\<lparr>users := users d @ [\<lparr>user_id = u, user_email = u @ ''@sentinel.local''\<rparr>],
                        transactions := transactions d @ [t]\<rparr>))"
    by (simp add: TransactionRepository_create_string prisma_transaction_create_def find_user_None)
  have present: "ti_userId data = JStr u \<and> ti_description data = JStr s \<and>
      u \<in> user_id ` set (users d) \<longrightarrow>
        (\<exists>t. TransactionRepository_create e d data =
              (Inr t, d\<lparr>transactions := transactions d @ [t]\<rparr>))"
    by (simp add: TransactionRepository_create_string find_user_None)
  have service: "ti_userId inp = JStr u \<and> ti_description inp = JStr s \<and>
      queue_add e = AddResolves \<longrightarrow>
        (\<exists>t w'. createTransaction e w inp = (Some (Inr t), w') \<and> tx_userId t = u \<and>
           u \<in> user_id ` set (users (db w')) \<and>
           users (db w') =
             (if u \<in> user_id ` set (users (db w)) then users (db w)
              else users (db w) @ [\<lparr>user_id = u, user_email = u @ ''@sentinel.local''\<rparr>]))"
  proof
    assume a: "ti_userId inp = JStr u \<and> ti_description inp = JStr s \<and>
      queue_add e = AddResolves"
    obtain r w1 where c: "classifyTransaction e w (Some (JStr s)) = (Inr r, w1)"
      using classifyTransaction_total by blast
    then have "db w1 = db w"
      using classifyTransaction_frame [of e w "Some (JStr s)"] by simp
    with a c show "\<exists>t w'. createTransaction e w inp = (Some (Inr t), w') \<and> tx_userId t = u \<and>
           u \<in> user_id ` set (users (db w')) \<and>
           users (db w') =
             (if u \<in> user_id ` set (users (db w)) then users (db w)
              else users (db w) @ [\<lparr>user_id = u, user_email = u @ ''@sentinel.local''\<rparr>])"
      by (simp add: createTransaction_def alertQueue_add_def TransactionRepository_create_string
          find_user_None)
  qed
  from absent present service show ?thesis by blast
qed

text \<open>The theorem on an empty database, and on one that holds the user with another email.\<close>

theorem TransactionRepository_create_provisions_user_witness:
  "TransactionRepository_create (test_env (Inr None) (Inr JNull) AddResolves)
      \<lparr>users = [], transactions = [], alertRules = []\<rparr>
      \<lparr>ti_userId = JStr ''u1'', ti_description = JStr ''Coffee'', ti_amount = 5,
        tc_category = ''Food'', tc_confidence = 0.9\<rparr>
    = (Inr \<lparr>tx_id = ''tx1'', tx_userId = ''u1'', tx_description = ''Coffee'', tx_amount = 5,
             tx_category = ''Food'', tx_confidence = 0.9, tx_createdAt = 1, tx_updatedAt = 1\<rparr>,
       \<lparr>users = [\<lparr>user_id = ''u1'', user_email = ''u1@sentinel.local''\<rparr>],
        transactions = [\<lparr>tx_id = ''tx1'', tx_userId = ''u1'', tx_description = ''Coffee'', tx_amount = 5,
             tx_category = ''Food'', tx_confidence = 0.9, tx_createdAt = 1, tx_updatedAt = 1\<rparr>],
        alertRules = []\<rparr>)
   \<and> users (snd (TransactionRepository_create (test_env (Inr None) (Inr JNull) AddResolves)
      \<lparr>users = [\<lparr>user_id = ''u1'', user_email = ''ann@example.org''\<rparr>], transactions = [],
        alertRules = []\<rparr>
      \<lparr>ti_userId = JStr ''u1'', ti_description = JStr ''Coffee'', ti_amount = 5,
        tc_category = ''Food'', tc_confidence = 0.9\<rparr>))
    = [\<lparr>user_id = ''u1'', user_email = ''ann@example.org''\<rparr>]"
  using
    TransactionRepository_create_provisions_user
      [where e = "test_env (Inr None) (Inr JNull) AddResolves"
        and d = "\<lparr>users = [], transactions = [], alertRules = []\<rparr>"
        and u = "''u1''" and s = "''Coffee''"
        and data = "\<lparr>ti_userId = JStr ''u1'', ti_description = JStr ''Coffee'',
           ti_amount = 5, tc_category = ''Food'', tc_confidence = 0.9\<rparr>"]
    TransactionRepository_create_provisions_user
      [where e = "test_env (Inr None) (Inr JNull) AddResolves"
        and d = "\<lparr>users = [\<lparr>user_id = ''u1'', user_email = ''ann@example.org''\<rparr>],
           transactions = [], alertRules = []\<rparr>"
        and u = "''u1''" and s = "''Coffee''"
        and data = "\<lparr>ti_userId = JStr ''u1'', ti_description = JStr ''Coffee'',
           ti_amount = 5, tc_category = ''Food'', tc_confidence = 0.9\<rparr>"]
  by (auto simp: test_env_def TransactionRepository_create_string)

section \<open>A failed dispatch\<close>

text \<open>Classification and persistence do not depend on what becomes of \<^verbatim>\<open>alertQueue.add\<close>.\<close>

lemma classifyTransaction_queue:
  "classifyTransaction (e\<lparr>queue_add := a\<rparr>) w description = classifyTransaction e w description"
proof -
  have "classifyTransaction_try (e\<lparr>queue_add := a\<rparr>) w description
      = classifyTransaction_try e w description"
    unfolding classifyTransaction_try_def openai_create_def
    by (simp split: option.splits json.splits sum.splits)
  then show ?thesis
    by (simp add: classifyTransaction_def)
qed

lemma TransactionRepository_create_queue:
  "TransactionRepository_create (e\<lparr>queue_add := a\<rparr>) d data = TransactionRepository_create e d data"
proof -
  have "default_email (e\<lparr>queue_add := a\<rparr>) v = default_email e v" for v
    by (cases "(e, v)" rule: default_email.cases) simp_all
  then show ?thesis
    unfolding TransactionRepository_create_def prisma_transaction_create_def
    by (simp split: prod.splits sum.splits option.splits json.splits)
qed

text \<open>
  C1, as amended. Take an input on which \<^verbatim>\<open>createTransaction\<close> returns a transaction when
  \<^verbatim>\<open>alertQueue.add\<close> resolves. On the same input and state, when \<^verbatim>\<open>alertQueue.add\<close> rejects
  with an error, \<^verbatim>\<open>createTransaction\<close> throws that error instead of returning the
  transaction; and when \<^verbatim>\<open>alertQueue.add\<close> stays pending, as it does while Redis cannot be
  reached, \<^verbatim>\<open>createTransaction\<close> neither returns nor throws. In both cases the store ends as
  in the successful run, holding the transaction (nothing is rolled back), and no job is
  in the queue.
\<close>

theorem createTransaction_dispatch_failure:
  "fst (createTransaction (e\<lparr>queue_add := AddResolves\<rparr>) w data) = Some (Inr t) \<longrightarrow>
     fst (createTransaction (e\<lparr>queue_add := AddRejects err\<rparr>) w data) = Some (Inl err)
   \<and> fst (createTransaction (e\<lparr>queue_add := AddPending\<rparr>) w data) = None
   \<and> db (snd (createTransaction (e\<lparr>queue_add := AddRejects err\<rparr>) w data))
       = db (snd (createTransaction (e\<lparr>queue_add := AddResolves\<rparr>) w data))
   \<and> db (snd (createTransaction (e\<lparr>queue_add := AddPending\<rparr>) w data))
       = db (snd (createTransaction (e\<lparr>queue_add := AddResolves\<rparr>) w data))
   \<and> transactions (db (snd (createTransaction (e\<lparr>queue_add := AddRejects err\<rparr>) w data)))
       = transactions (db w) @ [t]
   \<and> transactions (db (snd (createTransaction (e\<lparr>queue_add := AddPending\<rparr>) w data)))
       = transactions (db w) @ [t]
   \<and> jobs (snd (createTransaction (e\<lparr>queue_add := AddRejects err\<rparr>) w data)) = jobs w
   \<and> jobs (snd (createTransaction (e\<lparr>queue_add := AddPending\<rparr>) w data)) = jobs w
   \<and> jobs (snd (createTransaction (e\<lparr>queue_add := AddResolves\<rparr>) w data)) = jobs w @
       [(''new-transaction'',
         \<lparr>job_userId = ti_userId data, job_transactionId = tx_id t,
          job_category = tx_category t, job_amount = tx_amount t\<rparr>,
         \<lparr>attempts = 3, backoff_type = ''exponential'', backoff_delay = 2000\<rparr>)]"
proof
  assume ok: "fst (createTransaction (e\<lparr>queue_add := AddResolves\<rparr>) w data) = Some (Inr t)"
  obtain r w1 where c: "classifyTransaction e w (Some (ti_description data)) = (Inr r, w1)"
    using classifyTransaction_total by blast
  have w1: "db w1 = db w" "jobs w1 = jobs w"
    using c classifyTransaction_frame [of e w "Some (ti_description data)"] by simp_all
  let ?data = "\<lparr>ti_userId = ti_userId data, ti_description = ti_description data,
             ti_amount = ti_amount data, tc_category = cr_category r,
             tc_confidence = cr_confidence r\<rparr>"
  obtain res d2 where p: "TransactionRepository_create e (db w1) ?data = (res, d2)"
    by (cases "TransactionRepository_create e (db w1) ?data") auto
  from ok c p have res: "res = Inr t"
    by (auto simp: createTransaction_def alertQueue_add_def classifyTransaction_queue
        TransactionRepository_create_queue split: sum.splits)
  from p res w1 have stored: "transactions d2 = transactions (db w) @ [t]"
    using TransactionRepository_create_stored [of e "db w1" ?data t d2] by simp
  from c p res w1 stored
  show "fst (createTransaction (e\<lparr>queue_add := AddRejects err\<rparr>) w data) = Some (Inl err)
   \<and> fst (createTransaction (e\<lparr>queue_add := AddPending\<rparr>) w data) = None
   \<and> db (snd (createTransaction (e\<lparr>queue_add := AddRejects err\<rparr>) w data))
       = db (snd (createTransaction (e\<lparr>queue_add := AddResolves\<rparr>) w data))
   \<and> db (snd (createTransaction (e\<lparr>queue_add := AddPending\<rparr>) w data))
       = db (snd (createTransaction (e\<lparr>queue_add := AddResolves\<rparr>) w data))
   \<and> transactions (db (snd (createTransaction (e\<lparr>queue_add := AddRejects err\<rparr>) w data)))
       = transactions (db w) @ [t]
   \<and> transactions (db (snd (createTransaction (e\<lparr>queue_add := AddPending\<rparr>) w data)))
       = transactions (db w) @ [t]
   \<and> jobs (snd (createTransaction (e\<lparr>queue_add := AddRejects err\<rparr>) w data)) = jobs w
   \<and> jobs (snd (createTransaction (e\<lparr>queue_add := AddPending\<rparr>) w data)) = jobs w
   \<and> jobs (snd (createTransaction (e\<lparr>queue_add := AddResolves\<rparr>) w data)) = jobs w @
       [(''new-transaction'',
         \<lparr>job_userId = ti_userId data, job_transactionId = tx_id t,
          job_category = tx_category t, job_amount = tx_amount t\<rparr>,
         \<lparr>attempts = 3, backoff_type = ''exponential'', backoff_delay = 2000\<rparr>)]"
    by (simp add: createTransaction_def alertQueue_add_def classifyTransaction_queue
        TransactionRepository_create_queue)
qed

text \<open>
  C1 as stated fails. The call for a coffee of user u1 returns the transaction when
  \<^verbatim>\<open>alertQueue.add\<close> resolves. When it rejects, here with the error Redis replies once its
  memory is full, the same call ends in that error and returns no transaction; when it
  stays pending the call has no result. The transaction is stored in each of the runs.
\<close>

theorem createTransaction_dispatch_failure_counterexample:
  "fst (createTransaction (test_env (Inr (Some ''reply''))
          (Inr (JObj [(''category'', JStr ''Food''), (''confidence'', JNum 0.9)]))
          (AddRejects (Error ''OOM command not allowed when used memory > maxmemory'')))
        empty_world
        \<lparr>ti_userId = JStr ''u1'', ti_description = JStr ''Coffee'', ti_amount = 5\<rparr>)
     = Some (Inl (Error ''OOM command not allowed when used memory > maxmemory''))
   \<and> fst (createTransaction (test_env (Inr (Some ''reply''))
          (Inr (JObj [(''category'', JStr ''Food''), (''confidence'', JNum 0.9)])) AddPending)
        empty_world
        \<lparr>ti_userId = JStr ''u1'', ti_description = JStr ''Coffee'', ti_amount = 5\<rparr>)
     = None
   \<and> fst (createTransaction (test_env (Inr (Some ''reply''))
          (Inr (JObj [(''category'', JStr ''Food''), (''confidence'', JNum 0.9)])) AddResolves)
        empty_world
        \<lparr>ti_userId = JStr ''u1'', ti_description = JStr ''Coffee'', ti_amount = 5\<rparr>)
     = Some (Inr \<lparr>tx_id = ''tx1'', tx_userId = ''u1'', tx_description = ''Coffee'', tx_amount = 5,
             tx_category = ''Food'', tx_confidence = 0.9, tx_createdAt = 1, tx_updatedAt = 1\<rparr>)
   \<and> transactions (db (snd (createTransaction (test_env (Inr (Some ''reply''))
          (Inr (JObj [(''category'', JStr ''Food''), (''confidence'', JNum 0.9)]))
          (AddRejects (Error ''OOM command not allowed when used memory > maxmemory'')))
        empty_world
        \<lparr>ti_userId = JStr ''u1'', ti_description = JStr ''Coffee'', ti_amount = 5\<rparr>)))
     = [\<lparr>tx_id = ''tx1'', tx_userId = ''u1'', tx_description = ''Coffee'', tx_amount = 5,
             tx_category = ''Food'', tx_confidence = 0.9, tx_createdAt = 1, tx_updatedAt = 1\<rparr>]
   \<and> transactions (db (snd (createTransaction (test_env (Inr (Some ''reply''))
          (Inr (JObj [(''category'', JStr ''Food''), (''confidence'', JNum 0.9)])) AddPending)
        empty_world
        \<lparr>ti_userId = JStr ''u1'', ti_description = JStr ''Coffee'', ti_amount = 5\<rparr>)))
     = [\<lparr>tx_id = ''tx1'', tx_userId = ''u1'', tx_description = ''Coffee'', tx_amount = 5,
             tx_category = ''Food'', tx_confidence = 0.9, tx_createdAt = 1, tx_updatedAt = 1\<rparr>]"
  by (simp add: createTransaction_def classifyTransaction_def classifyTransaction_try_def
      openai_create_def invalid_structure_def ALLOWED_CATEGORIES_def test_env_def
      trim_Coffee alertQueue_add_def TransactionRepository_create_string
      empty_world_def)

text \<open>The amended theorem on that run.\<close>

theorem createTransaction_dispatch_failure_witness:
  "fst (createTransaction (test_env (Inr (Some ''reply''))
          (Inr (JObj [(''category'', JStr ''Food''), (''confidence'', JNum 0.9)])) AddResolves
          \<lparr>queue_add := AddRejects (Error ''OOM command not allowed when used memory > maxmemory'')\<rparr>)
        empty_world
        \<lparr>ti_userId = JStr ''u1'', ti_description = JStr ''Coffee'', ti_amount = 5\<rparr>)
     = Some (Inl (Error ''OOM command not allowed when used memory > maxmemory''))
   \<and> fst (createTransaction (test_env (Inr (Some ''reply''))
          (Inr (JObj [(''category'', JStr ''Food''), (''confidence'', JNum 0.9)])) AddResolves
          \<lparr>queue_add := AddPending\<rparr>)
        empty_world
        \<lparr>ti_userId = JStr ''u1'', ti_description = JStr ''Coffee'', ti_amount = 5\<rparr>)
     = None
   \<and> jobs (snd (createTransaction (test_env (Inr (Some ''reply''))
          (Inr (JObj [(''category'', JStr ''Food''), (''confidence'', JNum 0.9)])) AddResolves
          \<lparr>queue_add := AddRejects (Error ''OOM command not allowed when used memory > maxmemory'')\<rparr>)
        empty_world
        \<lparr>ti_userId = JStr ''u1'', ti_description = JStr ''Coffee'', ti_amount = 5\<rparr>))
     = []
   \<and> transactions (db (snd (createTransaction (test_env (Inr (Some ''reply''))
          (Inr (JObj [(''category'', JStr ''Food''), (''confidence'', JNum 0.9)])) AddResolves
          \<lparr>queue_add := AddRejects (Error ''OOM command not allowed when used memory > maxmemory'')\<rparr>)
        empty_world
        \<lparr>ti_userId = JStr ''u1'', ti_description = JStr ''Coffee'', ti_amount = 5\<rparr>)))
     = [\<lparr>tx_id = ''tx1'', tx_userId = ''u1'', tx_description = ''Coffee'', tx_amount = 5,
             tx_category = ''Food'', tx_confidence = 0.9, tx_createdAt = 1, tx_updatedAt = 1\<rparr>]"
proof -
  let ?e = "test_env (Inr (Some ''reply''))
          (Inr (JObj [(''category'', JStr ''Food''), (''confidence'', JNum 0.9)])) AddResolves"
  let ?d = "\<lparr>ti_userId = JStr ''u1'', ti_description = JStr ''Coffee'', ti_amount = 5\<rparr>"
  let ?t = "\<lparr>tx_id = ''tx1'', tx_userId = ''u1'', tx_description = ''Coffee'', tx_amount = 5,
             tx_category = ''Food'', tx_confidence = 0.9, tx_createdAt = 1, tx_updatedAt = 1\<rparr>"
  have up: "fst (createTransaction (?e\<lparr>queue_add := AddResolves\<rparr>) empty_world ?d) = Some (Inr ?t)"
    by (simp add: createTransaction_def classifyTransaction_def classifyTransaction_try_def
      openai_create_def invalid_structure_def ALLOWED_CATEGORIES_def test_env_def
      trim_Coffee alertQueue_add_def TransactionRepository_create_string
      empty_world_def)
  have empty: "jobs empty_world = []" "transactions (db empty_world) = []"
    by (simp_all add: empty_world_def)
  from createTransaction_dispatch_failure
      [of ?e empty_world ?d ?t "Error ''OOM command not allowed when used memory > maxmemory''"]
    up empty
  show ?thesis by (metis append_Nil)
qed

section \<open>The Alert Rule Store\<close>

lemma same_pair_key: "same_pair u c r = (rule_key r = (u, c))"
  by (auto simp: same_pair_def rule_key_def)

lemma find_same_pair_None: "(find (same_pair u c) rs = None) = ((u, c) \<notin> rule_key ` set rs)"
  by (force simp: find_None_iff same_pair_key)

lemma filter_distinct_key:
  "distinct (map rule_key rs) \<Longrightarrow>
     filter (same_pair u c) rs = (case find (same_pair u c) rs of None \<Rightarrow> [] | Some r \<Rightarrow> [r])"
proof (induction rs)
  case Nil
  then show ?case by simp
next
  case (Cons r rs)
  show ?case
  proof (cases "same_pair u c r")
    case True
    with Cons.prems have "(u, c) \<notin> rule_key ` set rs"
      by (simp add: same_pair_key)
    then have "filter (same_pair u c) rs = []"
      by (force simp: filter_empty_conv same_pair_key)
    with True show ?thesis by simp
  next
    case False
    with Cons show ?thesis by simp
  qed
qed



text \<open>
  C6. In a store where no two rules share a (userId, category) pair: after
  \<^verbatim>\<open>AlertRuleRepository.create\<close> this still holds; creating a rule for a pair that has one
  fails with the unique constraint error P2002 and leaves the store as it was; a rule that
  is created is for a pair that had none; and \<^verbatim>\<open>findByUserAndCategory\<close> changes nothing and
  returns the rules of the pair, which are none or exactly one.
\<close>

theorem alertRule_unique_per_user_category:
  "unique_rules d \<longrightarrow>
     unique_rules (snd (AlertRuleRepository_create e d data))
   \<and> ((\<exists>r \<in> set (alertRules d). ar_userId r = ai_userId data \<and> ar_category r = ai_category data) \<longrightarrow>
        AlertRuleRepository_create e d data = (Inl (PrismaClientKnownRequestError ''P2002''), d))
   \<and> (\<forall>r. fst (AlertRuleRepository_create e d data) = Inr r \<longrightarrow>
        ar_userId r = ai_userId data \<and> ar_category r = ai_category data \<and>
        alertRules (snd (AlertRuleRepository_create e d data)) = alertRules d @ [r] \<and>
        (\<forall>r' \<in> set (alertRules d). ar_userId r' \<noteq> ai_userId data \<or> ar_category r' \<noteq> ai_category data))
   \<and> snd (findByUserAndCategory d userId category) = d
   \<and> (\<exists>found. fst (findByUserAndCategory d userId category) = Inr found \<and>
        filter (\<lambda>r. ar_userId r = userId \<and> ar_category r = category) (alertRules d)
          = (case found of None \<Rightarrow> [] | Some r \<Rightarrow> [r]))"
proof
  assume inv: "unique_rules d"
  have keep: "unique_rules (snd (AlertRuleRepository_create e d data))"
    using inv
    by (auto simp: unique_rules_def AlertRuleRepository_create_def prisma_alertRule_create_def
        find_same_pair_None rule_key_def)
  have dup: "(\<exists>r \<in> set (alertRules d). ar_userId r = ai_userId data \<and> ar_category r = ai_category data) \<longrightarrow>
        AlertRuleRepository_create e d data = (Inl (PrismaClientKnownRequestError ''P2002''), d)"
    by (auto simp: AlertRuleRepository_create_def prisma_alertRule_create_def
        find_same_pair_None rule_key_def image_iff)
  have ok: "\<forall>r. fst (AlertRuleRepository_create e d data) = Inr r \<longrightarrow>
        ar_userId r = ai_userId data \<and> ar_category r = ai_category data \<and>
        alertRules (snd (AlertRuleRepository_create e d data)) = alertRules d @ [r] \<and>
        (\<forall>r' \<in> set (alertRules d). ar_userId r' \<noteq> ai_userId data \<or> ar_category r' \<noteq> ai_category data)"
    by (auto simp: AlertRuleRepository_create_def prisma_alertRule_create_def
        find_same_pair_None rule_key_def image_iff split: if_splits)
  have ro: "snd (findByUserAndCategory d userId category) = d"
    by (simp add: findByUserAndCategory_def prisma_alertRule_findUnique_def)
  have point: "\<exists>found. fst (findByUserAndCategory d userId category) = Inr found \<and>
        filter (\<lambda>r. ar_userId r = userId \<and> ar_category r = category) (alertRules d)
          = (case found of None \<Rightarrow> [] | Some r \<Rightarrow> [r])"
    using inv filter_distinct_key [of "alertRules d" userId category]
    by (simp add: findByUserAndCategory_def prisma_alertRule_findUnique_def unique_rules_def
        same_pair_def [abs_def])
  from keep dup ok ro point
  show "unique_rules (snd (AlertRuleRepository_create e d data))
   \<and> ((\<exists>r \<in> set (alertRules d). ar_userId r = ai_userId data \<and> ar_category r = ai_category data) \<longrightarrow>
        AlertRuleRepository_create e d data = (Inl (PrismaClientKnownRequestError ''P2002''), d))
   \<and> (\<forall>r. fst (AlertRuleRepository_create e d data) = Inr r \<longrightarrow>
        ar_userId r = ai_userId data \<and> ar_category r = ai_category data \<and>
        alertRules (snd (AlertRuleRepository_create e d data)) = alertRules d @ [r] \<and>
        (\<forall>r' \<in> set (alertRules d). ar_userId r' \<noteq> ai_userId data \<or> ar_category r' \<noteq> ai_category data))
   \<and> snd (findByUserAndCategory d userId category) = d
   \<and> (\<exists>found. fst (findByUserAndCategory d userId category) = Inr found \<and>
        filter (\<lambda>r. ar_userId r = userId \<and> ar_category r = category) (alertRules d)
          = (case found of None \<Rightarrow> [] | Some r \<Rightarrow> [r]))"
    by blast
qed

text \<open>
  The theorem on a store with one rule for (u1, Food): a second one is refused, one for
  (u1, Transport) keeps the invariant.
\<close>

theorem alertRule_unique_per_user_category_witness:
  "unique_rules (db (world_of [rule_of ''u1'' ''Food'' 100 True] []))
   \<and> AlertRuleRepository_create (test_env (Inr None) (Inr JNull) AddResolves)
        (db (world_of [rule_of ''u1'' ''Food'' 100 True] []))
        \<lparr>ai_userId = ''u1'', ai_category = ''Food'', ai_threshold = 250\<rparr>
      = (Inl (PrismaClientKnownRequestError ''P2002''), db (world_of [rule_of ''u1'' ''Food'' 100 True] []))
   \<and> unique_rules (snd (AlertRuleRepository_create (test_env (Inr None) (Inr JNull) AddResolves)
        (db (world_of [rule_of ''u1'' ''Food'' 100 True] []))
        \<lparr>ai_userId = ''u1'', ai_category = ''Transport'', ai_threshold = 40\<rparr>))
   \<and> filter (\<lambda>r. ar_userId r = ''u1'' \<and> ar_category r = ''Food'')
        (alertRules (db (world_of [rule_of ''u1'' ''Food'' 100 True] [])))
      = [rule_of ''u1'' ''Food'' 100 True]"
proof -
  let ?d = "db (world_of [rule_of ''u1'' ''Food'' 100 True] [])"
  let ?e = "test_env (Inr None) (Inr JNull) AddResolves"
  have inv: "unique_rules ?d"
    by (simp add: unique_rules_def world_of_def)
  have present: "\<exists>r \<in> set (alertRules ?d). ar_userId r = ''u1'' \<and> ar_category r = ''Food''"
    by (simp add: world_of_def rule_of_def)
  have rules: "filter (\<lambda>r. ar_userId r = ''u1'' \<and> ar_category r = ''Food'') (alertRules ?d)
      = [rule_of ''u1'' ''Food'' 100 True]"
    by (simp add: world_of_def rule_of_def)
  from alertRule_unique_per_user_category
      [of ?d ?e "\<lparr>ai_userId = ''u1'', ai_category = ''Food'', ai_threshold = 250\<rparr>" "''u1''" "''Food''"]
    inv present
  have dup: "AlertRuleRepository_create ?e ?d
        \<lparr>ai_userId = ''u1'', ai_category = ''Food'', ai_threshold = 250\<rparr>
      = (Inl (PrismaClientKnownRequestError ''P2002''), ?d)"
    by simp
  from alertRule_unique_per_user_category
      [of ?d ?e "\<lparr>ai_userId = ''u1'', ai_category = ''Transport'', ai_threshold = 40\<rparr>" "''u1''" "''Food''"]
    inv
  have keep: "unique_rules (snd (AlertRuleRepository_create ?e ?d
        \<lparr>ai_userId = ''u1'', ai_category = ''Transport'', ai_threshold = 40\<rparr>))"
    by blast
  from inv dup keep rules show ?thesis by blast
qed

section \<open>Rounding to a double\<close>



lemma rhe_of_int: "round_half_even (of_int n) = n"
  by (simp add: round_half_even_def)

lemma exponent_bounds:
  assumes "x \<noteq> 0"
  shows "2 powr of_int (exponent x) \<le> \<bar>x\<bar>" and "\<bar>x\<bar> < 2 powr of_int (exponent x + 1)"
  using assms floor_log_eq_powr_iff [of "\<bar>x\<bar>" 2 "exponent x"]
  by (simp_all add: exponent_def)


lemma ulp_pos: "0 < ulp x"
  by (simp add: ulp_def)


















lemma to_double_idem:
  assumes "is_double d"
  shows "to_double d = d"
proof (cases "d = 0")
  case True
  then show ?thesis by (simp add: to_double_def)
next
  case False
  with assms obtain n :: int where n: "d = real_of_int n * ulp d"
    by (auto simp: is_double_def)
  have u: "ulp d \<noteq> 0" using ulp_pos [of d] by simp
  have "d / ulp d = real_of_int n * ulp d / ulp d"
    using n by (rule arg_cong)
  then have "d / ulp d = real_of_int n" using u by simp
  then have "round_half_even (d / ulp d) = n" by (simp add: rhe_of_int)
  then have "to_double d = real_of_int n * ulp d" using False by (simp add: to_double_def)
  then show ?thesis unfolding n [symmetric] .
qed

lemma is_double_of_int:
  assumes "\<bar>n\<bar> < 2 ^ 53"
  shows "is_double (real_of_int n)"
proof (cases "n = 0")
  case True
  then show ?thesis by (simp add: is_double_def)
next
  case False
  let ?x = "real_of_int n"
  let ?e = "exponent ?x"
  have x: "?x \<noteq> 0" using False by simp
  have "\<bar>?x\<bar> < 2 ^ 53"
    using assms by (metis of_int_abs of_int_less_iff of_int_numeral of_int_power)
  then have "\<bar>?x\<bar> < 2 powr 53" by simp
  with exponent_bounds(1) [OF x] have "2 powr real_of_int ?e < 2 powr 53" by linarith
  then have "real_of_int ?e < 53" by (simp only: powr_less_cancel_iff one_less_numeral_iff semiring_norm)
  then have e: "?e \<le> 52" by linarith
  define j where "j = nat (52 - ?e)"
  have j: "real j = 52 - real_of_int ?e" using e by (simp add: j_def)
  have "ulp ?x * 2 powr real j = 2 powr (real_of_int (?e - 52) + real j)"
    unfolding ulp_def by (rule powr_add [symmetric])
  also have "real_of_int (?e - 52) + real j = 0" using j by simp
  finally have "ulp ?x * 2 powr real j = 1" by simp
  moreover have "(2::real) powr real j = 2 ^ j" by (simp add: powr_realpow)
  ultimately have one: "ulp ?x * 2 ^ j = 1" by simp
  have "real_of_int (n * 2 ^ j) * ulp ?x = ?x * (ulp ?x * 2 ^ j)"
    by simp
  then have "?x = real_of_int (n * 2 ^ j) * ulp ?x" unfolding one by simp
  then show ?thesis unfolding is_double_def by blast
qed

lemma to_double_of_int: "\<bar>n\<bar> < 2 ^ 53 \<Longrightarrow> to_double (real_of_int n) = real_of_int n"
  by (intro to_double_idem is_double_of_int)

lemma to_double_numeral [simp]:
  "numeral k < (2::int) ^ 53 \<Longrightarrow> to_double (numeral k) = numeral k"
  using to_double_of_int [of "numeral k"] by simp













section \<open>Threshold evaluation\<close>

text \<open>The total the code computes is the spec's, and the evaluation in closed form.\<close>

lemma getTotalByCategory_sum:
  "getTotalByCategory d userId category = (Inr (totalSpend d userId category), d)"
  unfolding getTotalByCategory_def prisma_transaction_aggregate_sum_def totalSpend_def
    matching_def [abs_def]
  by (simp add: float8_sum_def split: list.splits)



lemma checkAndTriggerAlert_eq:
  "checkAndTriggerAlert e w userId category =
     ((case find (same_pair userId category) (alertRules (db w)) of
         None \<Rightarrow> Inr None
       | Some r \<Rightarrow>
           if ar_isActive r \<and> totalSpend (db w) userId category > ar_threshold r
           then Inr (Some \<lparr>ev_userId = userId, ev_category = category,
                   ev_threshold = ar_threshold r,
                   ev_totalSpent = totalSpend (db w) userId category,
                   ev_message = alert_message e category (totalSpend (db w) userId category)
                                  (ar_threshold r),
                   ev_triggeredAt = now e\<rparr>)
           else Inr None), w)"
  unfolding checkAndTriggerAlert_def findByUserAndCategory_def prisma_alertRule_findUnique_def
  by (simp add: getTotalByCategory_sum split: option.splits)



text \<open>
  C7. \<^verbatim>\<open>checkAndTriggerAlert\<close> leaves the state as it found it, so neither store is
  written; run again on the state it returns, at a later time, it returns the same
  outcome, the event differing in triggeredAt only; and the outcome depends on the state
  through the database alone.
\<close>

theorem checkAndTriggerAlert_read_only:
  "snd (checkAndTriggerAlert e w userId category) = w
   \<and> fst (checkAndTriggerAlert (e\<lparr>now := later\<rparr>)
            (snd (checkAndTriggerAlert e w userId category)) userId category)
       = (case fst (checkAndTriggerAlert e w userId category) of
            Inr (Some ev) \<Rightarrow> Inr (Some (ev\<lparr>ev_triggeredAt := later\<rparr>))
          | r \<Rightarrow> r)
   \<and> (db w2 = db w \<longrightarrow>
        fst (checkAndTriggerAlert e w2 userId category)
          = fst (checkAndTriggerAlert e w userId category))"
  by (simp add: checkAndTriggerAlert_eq alert_message_def split: option.splits)

text \<open>The theorem on a breached rule, and on a state that differs outside the database.\<close>

theorem checkAndTriggerAlert_read_only_witness:
  "snd (checkAndTriggerAlert (test_env (Inr None) (Inr JNull) AddResolves)
        (world_of [rule_of ''u1'' ''Food'' 100 True] [spend ''t120'' ''u1'' ''Food'' 120]) ''u1'' ''Food'')
     = world_of [rule_of ''u1'' ''Food'' 100 True] [spend ''t120'' ''u1'' ''Food'' 120]
   \<and> fst (checkAndTriggerAlert (test_env (Inr None) (Inr JNull) AddResolves)
        ((world_of [rule_of ''u1'' ''Food'' 100 True] [spend ''t120'' ''u1'' ''Food'' 120])
           \<lparr>openai_requests := [''Coffee'']\<rparr>) ''u1'' ''Food'')
     = fst (checkAndTriggerAlert (test_env (Inr None) (Inr JNull) AddResolves)
        (world_of [rule_of ''u1'' ''Food'' 100 True] [spend ''t120'' ''u1'' ''Food'' 120]) ''u1'' ''Food'')
   \<and> ev_totalSpent (the (projr (fst (checkAndTriggerAlert (test_env (Inr None) (Inr JNull) AddResolves)
        (world_of [rule_of ''u1'' ''Food'' 100 True] [spend ''t120'' ''u1'' ''Food'' 120]) ''u1'' ''Food'')))) = 120"
proof -
  let ?w = "world_of [rule_of ''u1'' ''Food'' 100 True] [spend ''t120'' ''u1'' ''Food'' 120]"
  let ?e = "test_env (Inr None) (Inr JNull) AddResolves"
  have same: "db (?w\<lparr>openai_requests := [''Coffee'']\<rparr>) = db ?w"
    by simp
  have alert: "ev_totalSpent (the (projr (fst (checkAndTriggerAlert ?e ?w ''u1'' ''Food'')))) = 120"
    by (simp add: checkAndTriggerAlert_eq world_of_def rule_of_def spend_def totalSpend_def
        same_pair_def float8_sum_def double_add_def)
  from checkAndTriggerAlert_read_only
      [of ?e ?w "''u1''" "''Food''" 2 "?w\<lparr>openai_requests := [''Coffee'']\<rparr>"] same alert
  show ?thesis by blast
qed



section \<open>Validation in the route handler\<close>

text \<open>
  C9, as amended. A request whose body can be destructured (any JSON value but \<^verbatim>\<open>null\<close>)
  and whose userId or description is missing or falsy, or whose amount is missing or is
  not a number greater than zero, is answered with status 400, without data and with the
  state unchanged: no request to the language model, no user, no transaction, no job. A
  body that cannot be read or is \<^verbatim>\<open>null\<close> is answered with an error response, without data
  and with the state unchanged as well.
\<close>

theorem POST_rejects_invalid_input:
  "(getProp body ''userId'' = Inr userId \<and> getProp body ''description'' = Inr description \<and>
    getProp body ''amount'' = Inr amount \<and>
    (\<not> truthy userId \<or> \<not> truthy description \<or> amount = None \<or>
     (\<forall>a. amount = Some (JNum a) \<longrightarrow> a \<le> 0)) \<longrightarrow>
      (\<exists>response. fst (POST e w (Inr body)) = Some response \<and>
         http_status response = 400 \<and>
         res_success (http_body response) = False \<and>
         res_data (http_body response) = None) \<and>
      snd (POST e w (Inr body)) = w)
   \<and> (body \<noteq> JNull \<longrightarrow>
        (\<exists>u d a. getProp body ''userId'' = Inr u \<and> getProp body ''description'' = Inr d \<and>
           getProp body ''amount'' = Inr a))
   \<and> (request_json = Inr JNull \<or> request_json = Inl err \<longrightarrow>
        (\<exists>response. fst (POST e w request_json) = Some response \<and>
           res_success (http_body response) = False \<and>
           res_data (http_body response) = None) \<and>
        snd (POST e w request_json) = w)"
proof -
  have invalid: "getProp body ''userId'' = Inr userId \<and> getProp body ''description'' = Inr description \<and>
    getProp body ''amount'' = Inr amount \<and>
    (\<not> truthy userId \<or> \<not> truthy description \<or> amount = None \<or>
     (\<forall>a. amount = Some (JNum a) \<longrightarrow> a \<le> 0)) \<longrightarrow>
      (\<exists>response. fst (POST e w (Inr body)) = Some response \<and>
         http_status response = 400 \<and>
         res_success (http_body response) = False \<and>
         res_data (http_body response) = None) \<and>
      snd (POST e w (Inr body)) = w"
    by (auto simp: POST_def errorResponse_def toHttpResponse_def split: option.splits json.splits)
  have fields: "body \<noteq> JNull \<longrightarrow>
        (\<exists>u d a. getProp body ''userId'' = Inr u \<and> getProp body ''description'' = Inr d \<and>
           getProp body ''amount'' = Inr a)"
    by (cases body) simp_all
  have unreadable: "request_json = Inr JNull \<or> request_json = Inl err \<longrightarrow>
        (\<exists>response. fst (POST e w request_json) = Some response \<and>
           res_success (http_body response) = False \<and>
           res_data (http_body response) = None) \<and>
        snd (POST e w request_json) = w"
    by (auto simp: POST_def errorResponse_def toHttpResponse_def)
  from invalid fields unreadable show ?thesis by blast
qed

text \<open>
  C9 as stated fails on the body \<^verbatim>\<open>null\<close> and on a body that is not JSON: both lack every
  field, and both are answered with status 500, not 400.
\<close>

theorem POST_rejects_invalid_input_counterexample:
  "map_option http_status
      (fst (POST (test_env (Inr None) (Inr JNull) AddResolves) empty_world (Inr JNull)))
     = Some 500
   \<and> map_option http_status
      (fst (POST (test_env (Inr None) (Inr JNull) AddResolves) empty_world
        (Inl (SyntaxError ''Unexpected end of JSON input''))))
     = Some 500"
  by (simp add: POST_def errorResponse_def toHttpResponse_def)

text \<open>The amended theorem on a body without amount and on one with amount -5.\<close>

theorem POST_rejects_invalid_input_witness:
  "map_option http_status
      (fst (POST (test_env (Inr None) (Inr JNull) AddResolves) empty_world
        (Inr (JObj [(''userId'', JStr ''u1''), (''description'', JStr ''Coffee'')]))))
     = Some 400
   \<and> snd (POST (test_env (Inr None) (Inr JNull) AddResolves) empty_world
      (Inr (JObj [(''userId'', JStr ''u1''), (''description'', JStr ''Coffee'')]))) = empty_world
   \<and> map_option http_status
      (fst (POST (test_env (Inr None) (Inr JNull) AddResolves) empty_world
        (Inr (JObj [(''userId'', JStr ''u1''), (''description'', JStr ''Coffee''),
                    (''amount'', JNum (- 5))]))))
     = Some 400
   \<and> snd (POST (test_env (Inr None) (Inr JNull) AddResolves) empty_world (Inr JNull)) = empty_world"
  using
    POST_rejects_invalid_input
      [where body = "JObj [(''userId'', JStr ''u1''), (''description'', JStr ''Coffee'')]"
        and userId = "Some (JStr ''u1'')" and description = "Some (JStr ''Coffee'')"
        and amount = None and e = "test_env (Inr None) (Inr JNull) AddResolves" and w = empty_world
        and request_json = "Inr JNull"]
    POST_rejects_invalid_input
      [where body = "JObj [(''userId'', JStr ''u1''), (''description'', JStr ''Coffee''),
                  (''amount'', JNum (- 5))]"
        and userId = "Some (JStr ''u1'')" and description = "Some (JStr ''Coffee'')"
        and amount = "Some (JNum (- 5))" and e = "test_env (Inr None) (Inr JNull) AddResolves"
        and w = empty_world and request_json = "Inr JNull"]
  by auto

end
